theory Spec2Isabelle
  imports Main "HOL-Library.Log_Nat"
begin

section \<open>Python values used by \<^verbatim>\<open>sana-api-wrapper/main.py\<close>\<close>

text \<open>
  Exceptions are values. The constructors are the exception classes that the code of
  \<^verbatim>\<open>main.py\<close> and the library calls it makes can raise; \<open>External\<close> is an
  exception raised inside an external collaborator (the diffusion pipeline, PIL, the
  operating system) with that collaborator's message.
\<close>

datatype py_exception =
    OverflowError
  | ZeroDivisionError
  | IndexError
  | TypeError
  | ValueError
  | FileNotFoundError string
  | FileExistsError string
  | CalledProcessError int "string list"
  | RuntimeError string py_exception
  | External string

text \<open>
  \<open>RuntimeError prefix e\<close> is the \<^verbatim>\<open>RuntimeError(f"Failed to load model: {e}")\<close> of
  \<^verbatim>\<open>lifetime\<close>: the literal part of the f-string and the exception interpolated into
  it. \<open>CalledProcessError returncode cmd\<close> is what \<^verbatim>\<open>subprocess.run(..., check=True)\<close>
  raises. A computation that may raise returns \<open>py_exception + 'a\<close>, \<open>Inl\<close> the raise.
\<close>

definition raise_or :: "py_exception + 'a \<Rightarrow> ('a \<Rightarrow> py_exception + 'b) \<Rightarrow> py_exception + 'b" where
  "raise_or m f = (case m of Inl e \<Rightarrow> Inl e | Inr x \<Rightarrow> f x)"

subsection \<open>Floats\<close>

text \<open>
  A Python \<^verbatim>\<open>float\<close> is an IEEE 754 binary64 number: a finite one is modelled by
  its exact value, a rational number; \<open>Infinity\<close> stands for an overflowed result of
  either sign (the only operation the program applies to a result is \<^verbatim>\<open>int()\<close>,
  which raises on both). \<open>float_round\<close> rounds an exact value to the nearest binary64
  number, ties to even: 53 significant bits, least exponent \<open>-1022\<close> (below it the
  spacing stays that of the subnormal numbers), overflow from \<open>2 ^ 1024\<close> on.
\<close>

datatype pyfloat = Finite rat | Infinity

definition round_half_even :: "rat \<Rightarrow> int" where
  "round_half_even x =
     (let f = \<lfloor>x\<rfloor>; r = x - of_int f
      in if r < 1 / 2 then f else if 1 / 2 < r then f + 1 else if even f then f else f + 1)"

text \<open>The binade of a positive \<open>x\<close>: the \<open>e\<close> with \<open>2 ^ e \<le> x < 2 ^ (e + 1)\<close>.\<close>

definition binade :: "rat \<Rightarrow> int" where
  "binade x = (if 1 \<le> x then bitlen \<lfloor>x\<rfloor> - 1 else - bitlen (\<lceil>1 / x\<rceil> - 1))"

definition float_round :: "rat \<Rightarrow> pyfloat" where
  "float_round x =
     (if x = 0 then Finite 0
      else let e = max (binade \<bar>x\<bar>) (- 1022);
               u = 2 powi (e - 52);
               r = of_int (round_half_even (\<bar>x\<bar> / u)) * u
           in if 2 powi 1024 \<le> r then Infinity else Finite (sgn x * r))"

text \<open>\<^verbatim>\<open>float(i)\<close> for an int, as every mixed int/float operation converts its int
  operand: \<^verbatim>\<open>OverflowError\<close> when the int is too large.\<close>

definition int_to_float :: "int \<Rightarrow> py_exception + rat" where
  "int_to_float i = (case float_round (of_int i) of Infinity \<Rightarrow> Inl OverflowError | Finite r \<Rightarrow> Inr r)"

text \<open>\<^verbatim>\<open>a / b\<close> on two ints: the correctly rounded quotient.\<close>

definition int_truediv :: "int \<Rightarrow> int \<Rightarrow> py_exception + rat" where
  "int_truediv a b =
     (if b = 0 then Inl ZeroDivisionError
      else case float_round (of_int a / of_int b) of Infinity \<Rightarrow> Inl OverflowError | Finite r \<Rightarrow> Inr r)"

text \<open>\<^verbatim>\<open>i / y\<close> and \<^verbatim>\<open>i * y\<close> for an int \<open>i\<close> and a finite float \<open>y\<close>.\<close>

definition int_div_float :: "int \<Rightarrow> rat \<Rightarrow> py_exception + pyfloat" where
  "int_div_float i y =
     raise_or (int_to_float i) (\<lambda>x. if y = 0 then Inl ZeroDivisionError else Inr (float_round (x / y)))"

definition int_mul_float :: "int \<Rightarrow> rat \<Rightarrow> py_exception + pyfloat" where
  "int_mul_float i y = raise_or (int_to_float i) (\<lambda>x. Inr (float_round (x * y)))"

text \<open>\<^verbatim>\<open>int(x)\<close> truncates towards zero and raises on an infinity.\<close>

definition py_int :: "pyfloat \<Rightarrow> py_exception + int" where
  "py_int x = (case x of Infinity \<Rightarrow> Inl OverflowError
               | Finite r \<Rightarrow> Inr (if 0 \<le> r then \<lfloor>r\<rfloor> else \<lceil>r\<rceil>))"

section \<open>The centre crop of \<^verbatim>\<open>generate_image\<close>\<close>

text \<open>
  Lines 73 to 85 of \<^verbatim>\<open>main.py\<close>: from the size of the generated image to the box
  \<open>(left, top, right, bottom)\<close> handed to \<^verbatim>\<open>image.crop\<close>. \<^verbatim>\<open>//\<close> is floor division,
  which is \<open>div\<close> on \<open>int\<close>.
\<close>

definition crop_box :: "int \<Rightarrow> int \<Rightarrow> py_exception + (int \<times> int \<times> int \<times> int)" where
  "crop_box width height =
     raise_or (int_truediv 2 3) (\<lambda>target_ratio.
     raise_or (raise_or (int_div_float width target_ratio) py_int) (\<lambda>target_height0.
     raise_or (if target_height0 > height
               then raise_or (raise_or (int_mul_float height target_ratio) py_int)
                      (\<lambda>tw. Inr (tw, height))
               else Inr (width, target_height0)) (\<lambda>(target_width, target_height).
     let left = (width - target_width) div 2;
         top = (height - target_height) div 2;
         right = left + target_width;
         bottom = top + target_height
     in Inr (left, top, right, bottom))))"

text \<open>The crop in integer arithmetic, for comparison with \<open>crop_box\<close>: \<open>3 * width div 2\<close> for
  \<^verbatim>\<open>int(width / target_ratio)\<close> and \<open>2 * height div 3\<close> for \<^verbatim>\<open>int(height * target_ratio)\<close>.\<close>

definition crop_box_int :: "int \<Rightarrow> int \<Rightarrow> int \<times> int \<times> int \<times> int" where
  "crop_box_int width height =
     (let (target_width, target_height) =
            (if 3 * width div 2 > height then (2 * height div 3, height)
             else (width, 3 * width div 2));
          left = (width - target_width) div 2;
          top = (height - target_height) div 2
      in (left, top, left + target_width, top + target_height))"

text \<open>The binary64 number that \<^verbatim>\<open>2 / 3\<close> evaluates to.\<close>

definition target_ratio :: rat where
  "target_ratio = 6004799503160661 / 9007199254740992"

section \<open>Images\<close>

text \<open>
  A PIL image: its size \<open>(width, height)\<close> and its pixels. \<open>image_crop\<close> is
  \<^verbatim>\<open>Image.crop(box)\<close>: the result has size \<open>(right - left, lower - upper)\<close>, reads the
  source at the shifted coordinates (0 outside of it), and PIL raises \<^verbatim>\<open>ValueError\<close>
  for a box whose right or lower edge comes before its left or upper one.
\<close>

record image =
  img_size :: "int \<times> int"
  img_pixel :: "int \<Rightarrow> int \<Rightarrow> nat"

definition image_crop :: "image \<Rightarrow> int \<times> int \<times> int \<times> int \<Rightarrow> py_exception + image" where
  "image_crop im box =
     (case box of (left, upper, right, lower) \<Rightarrow>
        if right < left \<or> lower < upper then Inl ValueError
        else Inr \<lparr>img_size = (right - left, lower - upper),
                  img_pixel = (\<lambda>x y. case img_size im of (w, h) \<Rightarrow>
                     if 0 \<le> x + left \<and> x + left < w \<and> 0 \<le> y + upper \<and> y + upper < h
                     then img_pixel im (x + left) (y + upper) else 0)\<rparr>)"

section \<open>The process state and its collaborators\<close>

text \<open>
  The collaborators of \<^verbatim>\<open>main.py\<close> are external: torch and the diffusion pipeline, PIL's
  BMP writer, \<^verbatim>\<open>tempfile\<close>, and the \<^verbatim>\<open>cjpeg\<close> program. Their behaviour is a parameter
  of the model, the record \<open>env\<close>; each may raise.
  \<^item> \<open>pipeline_run p prompt steps g\<close> is one run of the loaded pipeline \<open>p\<close> drawing its
    noise from a random generator in state \<open>g\<close>: the images (or the exception) and the
    generator's state afterwards.
  \<^item> \<open>manual_seed device seed\<close> is \<^verbatim>\<open>torch.Generator(device=device).manual_seed(seed)\<close>.
  \<^item> \<open>from_pretrained path\<close> loads the pipeline object; \<open>pipeline_to p device\<close> is
    \<^verbatim>\<open>pipeline.to(device)\<close>, which moves that object in place and whose result
    \<^verbatim>\<open>lifetime\<close> discards.
  \<^item> \<open>mkstemp exists suffix\<close> is the name \<^verbatim>\<open>tempfile\<close> picks for a new file, given which
    paths exist.
  \<^item> \<open>save_bmp im\<close> is the BMP serialisation of an image, or the exception of a failed
    save together with the bytes written before it.
  \<^item> \<open>execvp args files\<close> is what launching \<open>args\<close> does: the program is not found, the
    launch fails with another exception (\<^verbatim>\<open>PermissionError\<close>, say), or the program runs,
    writes some files and exits with a return code.
\<close>

type_synonym bytes = "nat list"
type_synonym rng_state = nat

datatype pipeline = Pipeline string

datatype generator = Generator rng_state

datatype ml_value = PipelineObj pipeline | StrObj string

datatype proc_outcome = NotFound | LaunchFailed py_exception | Exited int "(string \<times> bytes) list"

record env =
  cuda_is_available :: bool
  getenv :: "string \<Rightarrow> string option"
  from_pretrained :: "string \<Rightarrow> py_exception + pipeline"
  pipeline_to :: "pipeline \<Rightarrow> string \<Rightarrow> py_exception + unit"
  manual_seed :: "ml_value option \<Rightarrow> int \<Rightarrow> py_exception + generator"
  pipeline_run :: "pipeline \<Rightarrow> string \<Rightarrow> nat \<Rightarrow> rng_state \<Rightarrow> (py_exception + image list) \<times> rng_state"
  mkstemp :: "(string \<Rightarrow> bool) \<Rightarrow> string \<Rightarrow> py_exception + string"
  save_bmp :: "image \<Rightarrow> py_exception \<times> bytes + bytes"
  execvp :: "string list \<Rightarrow> (string \<rightharpoonup> bytes) \<Rightarrow> proc_outcome"

text \<open>
  The state: the module's dict \<^verbatim>\<open>ml_models\<close>, the files, torch's global random
  generator, and two logs that record each call of the pipeline (prompt,
  \<^verbatim>\<open>num_inference_steps\<close>, generator) and each launched command line. Logging and the
  timing of \<^verbatim>\<open>generate_image\<close> are left out.
\<close>

record world =
  ml_models :: "string \<rightharpoonup> ml_value"
  fs :: "string \<rightharpoonup> bytes"
  torch_rng :: rng_state
  pipeline_calls :: "(string \<times> nat \<times> generator option) list"
  subprocess_calls :: "string list list"

definition initial_world :: world where
  "initial_world = \<lparr>ml_models = Map.empty, fs = Map.empty, torch_rng = 0,
                      pipeline_calls = [], subprocess_calls = []\<rparr>"

definition and_then ::
  "(py_exception + 'a) \<times> world \<Rightarrow> ('a \<Rightarrow> world \<Rightarrow> (py_exception + 'b) \<times> world)
   \<Rightarrow> (py_exception + 'b) \<times> world" where
  "and_then m f = (case m of (Inl e, w) \<Rightarrow> (Inl e, w) | (Inr x, w) \<Rightarrow> f x w)"

section \<open>\<^verbatim>\<open>generate_image\<close>\<close>

text \<open>Line 64: \<^verbatim>\<open>torch.Generator(device=device).manual_seed(seed) if seed else None\<close>.
  The test is Python's truth value of \<^verbatim>\<open>seed\<close>: false for \<^verbatim>\<open>None\<close> and for \<open>0\<close>.\<close>

definition make_generator :: "env \<Rightarrow> ml_value option \<Rightarrow> int option \<Rightarrow> py_exception + generator option" where
  "make_generator env device seed =
     (case seed of
        None \<Rightarrow> Inr None
      | Some s \<Rightarrow> if s \<noteq> 0 then raise_or (manual_seed env device s) (\<lambda>g. Inr (Some g)) else Inr None)"

text \<open>Lines 66 to 70, the call \<^verbatim>\<open>pipeline(prompt=..., num_inference_steps=..., generator=...)\<close>:
  a string is not callable; a pipeline draws from the generator it is given, and from
  torch's global generator when it is given none.\<close>

definition call_pipeline ::
  "env \<Rightarrow> ml_value \<Rightarrow> string \<Rightarrow> nat \<Rightarrow> generator option \<Rightarrow> world
   \<Rightarrow> (py_exception + image list) \<times> world" where
  "call_pipeline env pipeline prompt num_inference_steps generator w =
     (case pipeline of
        StrObj _ \<Rightarrow> (Inl TypeError, w)
      | PipelineObj p \<Rightarrow>
          let w1 = w\<lparr>pipeline_calls := pipeline_calls w @ [(prompt, num_inference_steps, generator)]\<rparr>
          in case generator of
               Some (Generator g) \<Rightarrow> (fst (pipeline_run env p prompt num_inference_steps g), w1)
             | None \<Rightarrow>
                 (case pipeline_run env p prompt num_inference_steps (torch_rng w1) of
                    (r, g') \<Rightarrow> (r, w1\<lparr>torch_rng := g'\<rparr>)))"

text \<open>\<^verbatim>\<open>.images[0]\<close>\<close>

definition first_image :: "image list \<Rightarrow> py_exception + image" where
  "first_image images = (case images of [] \<Rightarrow> Inl IndexError | im # _ \<Rightarrow> Inr im)"

definition generate_image ::
  "env \<Rightarrow> ml_value \<Rightarrow> ml_value option \<Rightarrow> string \<Rightarrow> int option \<Rightarrow> world
   \<Rightarrow> (py_exception + image) \<times> world" where
  "generate_image env pipeline device prompt seed w =
     and_then (make_generator env device seed, w) (\<lambda>generator w.
     and_then (call_pipeline env pipeline prompt 2 generator w) (\<lambda>images w.
       (raise_or (first_image images) (\<lambda>im.
          case img_size im of (width, height) \<Rightarrow>
            raise_or (crop_box width height) (image_crop im)), w)))"

text \<open>Lines 72 to 86 for one image, as \<open>generate_image\<close> applies them to the first image
  of the pipeline: the crop box from its size, and the crop.\<close>

definition center_crop :: "image \<Rightarrow> py_exception + image" where
  "center_crop im =
     (case img_size im of (width, height) \<Rightarrow> raise_or (crop_box width height) (image_crop im))"

section \<open>The endpoints\<close>

record generation_request =
  request_prompt :: string
  request_seed :: "int option"

text \<open>\<^verbatim>\<open>HTTPException(status_code, detail)\<close>; a detail is a literal, or the f-string
  \<^verbatim>\<open>f"Image generation failed: {e}"\<close> kept as its literal part and the exception.\<close>

datatype detail = Literal string | Formatted string py_exception

datatype http_exception = HTTPException nat detail

record response =
  content :: bytes
  media_type :: string

record health =
  status :: string
  model_loaded :: bool

definition health_check :: "world \<Rightarrow> health" where
  "health_check w = \<lparr>status = ''ok'', model_loaded = (ml_models w ''sana_sprint'' \<noteq> None)\<rparr>"

text \<open>Python's truth value of what \<^verbatim>\<open>ml_models.get("sana_sprint")\<close> returned.\<close>

definition truthy :: "ml_value option \<Rightarrow> bool" where
  "truthy v = (case v of None \<Rightarrow> False | Some (PipelineObj _) \<Rightarrow> True | Some (StrObj s) \<Rightarrow> s \<noteq> [])"

text \<open>\<^verbatim>\<open>tempfile.NamedTemporaryFile(delete=False, suffix=...)\<close> creates a new, empty file
  and returns its name; it never takes an existing path. Closing it (leaving the
  \<^verbatim>\<open>with\<close> block) does not delete it, since \<^verbatim>\<open>delete=False\<close>.\<close>

definition named_temporary_file :: "env \<Rightarrow> string \<Rightarrow> world \<Rightarrow> (py_exception + string) \<times> world" where
  "named_temporary_file env suffix w =
     (case mkstemp env (\<lambda>p. fs w p \<noteq> None) suffix of
        Inl e \<Rightarrow> (Inl e, w)
      | Inr name \<Rightarrow>
          (case fs w name of
             Some _ \<Rightarrow> (Inl (FileExistsError name), w)
           | None \<Rightarrow> (Inr name, w\<lparr>fs := (fs w)(name \<mapsto> [])\<rparr>)))"

text \<open>\<^verbatim>\<open>pil_image.save(name, format="BMP")\<close> opens the file for writing and writes the
  serialisation; when the writer raises, what it had written stays in the file.\<close>

definition image_save :: "env \<Rightarrow> image \<Rightarrow> string \<Rightarrow> world \<Rightarrow> (py_exception + unit) \<times> world" where
  "image_save env im name w =
     (case save_bmp env im of
        Inl (e, partial) \<Rightarrow> (Inl e, w\<lparr>fs := (fs w)(name \<mapsto> partial)\<rparr>)
      | Inr data \<Rightarrow> (Inr (), w\<lparr>fs := (fs w)(name \<mapsto> data)\<rparr>))"

text \<open>\<^verbatim>\<open>subprocess.run(args, check=check)\<close>: \<^verbatim>\<open>FileNotFoundError\<close> when the program is not
  found, the exception of any other failed launch, and with \<^verbatim>\<open>check\<close>,
  \<^verbatim>\<open>CalledProcessError\<close> when the program exits with a non-zero code.\<close>

definition subprocess_run :: "env \<Rightarrow> string list \<Rightarrow> bool \<Rightarrow> world \<Rightarrow> (py_exception + int) \<times> world" where
  "subprocess_run env args check w =
     (case args of
        [] \<Rightarrow> (Inl IndexError, w)
      | prog # _ \<Rightarrow>
          let w1 = w\<lparr>subprocess_calls := subprocess_calls w @ [args]\<rparr>
          in case execvp env args (fs w1) of
               NotFound \<Rightarrow> (Inl (FileNotFoundError prog), w1)
             | LaunchFailed e \<Rightarrow> (Inl e, w1)
             | Exited returncode writes \<Rightarrow>
                 let w2 = w1\<lparr>fs := fold (\<lambda>(p, d) m. m(p \<mapsto> d)) writes (fs w1)\<rparr>
                 in if check \<and> returncode \<noteq> 0
                    then (Inl (CalledProcessError returncode args), w2)
                    else (Inr returncode, w2))"

text \<open>\<^verbatim>\<open>open(name, "rb").read()\<close>\<close>

definition read_file :: "string \<Rightarrow> world \<Rightarrow> (py_exception + bytes) \<times> world" where
  "read_file name w = (case fs w name of None \<Rightarrow> (Inl (FileNotFoundError name), w) | Some d \<Rightarrow> (Inr d, w))"

text \<open>Lines 113 to 124 of \<^verbatim>\<open>api_generate_image\<close>: the image goes to a temporary BMP file,
  \<^verbatim>\<open>cjpeg\<close> turns it into a temporary JPEG file, whose bytes are read back.\<close>

definition encode_mozjpeg :: "env \<Rightarrow> image \<Rightarrow> world \<Rightarrow> (py_exception + bytes) \<times> world" where
  "encode_mozjpeg env pil_image w =
     and_then (named_temporary_file env ''.bmp'' w) (\<lambda>tmp_bmp w.
     and_then (image_save env pil_image tmp_bmp w) (\<lambda>_ w.
     and_then (named_temporary_file env ''.jpg'' w) (\<lambda>tmp_jpg w.
     and_then (subprocess_run env
                 [''cjpeg'', ''-quality'', ''85'', ''-progressive'', ''-outfile'', tmp_jpg, tmp_bmp]
                 True w) (\<lambda>_ w.
     read_file tmp_jpg w))))"

definition api_generate_image ::
  "env \<Rightarrow> generation_request \<Rightarrow> world \<Rightarrow> (http_exception + response) \<times> world" where
  "api_generate_image env request w =
     (let pipeline = ml_models w ''sana_sprint'';
          device = ml_models w ''device''
      in case pipeline of
           None \<Rightarrow> (Inl (HTTPException 500 (Literal ''Image generation model not available'')), w)
         | Some pl \<Rightarrow>
             if \<not> truthy pipeline
             then (Inl (HTTPException 500 (Literal ''Image generation model not available'')), w)
             else (case and_then
                          (generate_image env pl device (request_prompt request) (request_seed request) w)
                          (encode_mozjpeg env) of
                     (Inl e, w') \<Rightarrow> (Inl (HTTPException 500 (Formatted ''Image generation failed: '' e)), w')
                   | (Inr img_data, w') \<Rightarrow> (Inr \<lparr>content = img_data, media_type = ''image/jpeg''\<rparr>, w')))"

section \<open>The lifespan\<close>

text \<open>
  \<^verbatim>\<open>lifetime\<close> up to its \<^verbatim>\<open>yield\<close> is \<open>lifetime_startup\<close>; a failed load is re-raised as
  \<^verbatim>\<open>RuntimeError\<close> after the \<^verbatim>\<open>finally\<close> block, \<open>lifetime_cleanup\<close>, has run. At shutdown
  the generator resumes after the \<^verbatim>\<open>yield\<close> and runs the \<^verbatim>\<open>finally\<close> block.
\<close>

definition lifetime_cleanup :: "world \<Rightarrow> world" where
  "lifetime_cleanup w = w\<lparr>ml_models := (ml_models w)(''sana_sprint'' := None)\<rparr>"

definition lifetime_startup :: "env \<Rightarrow> world \<Rightarrow> (py_exception + unit) \<times> world" where
  "lifetime_startup env w =
     (let device = (if cuda_is_available env then ''cuda'' else ''cpu'');
          model_path = (case getenv env ''SANA_SPRINT_MODEL_PATH'' of
                          None \<Rightarrow> ''./sana-local'' | Some p \<Rightarrow> p)
      in case raise_or (from_pretrained env model_path) (\<lambda>pipeline.
                raise_or (pipeline_to env pipeline device) (\<lambda>_. Inr pipeline)) of
           Inr pipeline \<Rightarrow>
             (Inr (), w\<lparr>ml_models := (ml_models w)(''sana_sprint'' \<mapsto> PipelineObj pipeline,
                                                      ''device'' \<mapsto> StrObj device)\<rparr>)
         | Inl e \<Rightarrow> (Inl (RuntimeError ''Failed to load model: '' e), lifetime_cleanup w))"

definition lifetime_shutdown :: "world \<Rightarrow> world" where
  "lifetime_shutdown w = lifetime_cleanup w"

text \<open>The two routes of the application, and a run of requests one after another.\<close>

datatype request = GetHealth | PostGenerate generation_request

datatype reply = HealthReply health | GenerateReply "http_exception + response"

definition handle :: "env \<Rightarrow> request \<Rightarrow> world \<Rightarrow> reply \<times> world" where
  "handle env r w =
     (case r of
        GetHealth \<Rightarrow> (HealthReply (health_check w), w)
      | PostGenerate g \<Rightarrow> (case api_generate_image env g w of (x, w') \<Rightarrow> (GenerateReply x, w')))"

fun serve :: "env \<Rightarrow> request list \<Rightarrow> world \<Rightarrow> world" where
  "serve env [] w = w"
| "serve env (r # rs) w = serve env rs (snd (handle env r w))"

section \<open>A stub environment\<close>

text \<open>
  Collaborators simple enough to run: a pipeline that returns one 1024 by 1024 image
  whose pixels are the state of the random generator that drove it, temporary files
  named after their suffix, a BMP writer and an encoder that copy what they are given.
  \<open>stub_env_encoder_fails\<close> has an encoder that exits with code 1, and
  \<open>stub_env_no_encoder\<close> has no \<^verbatim>\<open>cjpeg\<close> on the path.
\<close>

definition stub_image :: "rng_state \<Rightarrow> image" where
  "stub_image g = \<lparr>img_size = (1024, 1024), img_pixel = (\<lambda>x y. g)\<rparr>"

definition stub_cjpeg :: "string list \<Rightarrow> (string \<rightharpoonup> bytes) \<Rightarrow> proc_outcome" where
  "stub_cjpeg args files =
     (case args of
        [prog, a1, a2, a3, a4, out, inp] \<Rightarrow>
          (case files inp of None \<Rightarrow> Exited 1 [] | Some d \<Rightarrow> Exited 0 [(out, 255 # 216 # d)])
      | _ \<Rightarrow> Exited 2 [])"

definition stub_env :: env where
  "stub_env =
     \<lparr>cuda_is_available = False,
      getenv = (\<lambda>_. None),
      from_pretrained = (\<lambda>path. Inr (Pipeline path)),
      pipeline_to = (\<lambda>p device. Inr ()),
      manual_seed = (\<lambda>device s. Inr (Generator (nat \<bar>s\<bar>))),
      pipeline_run = (\<lambda>p prompt steps g. (Inr [stub_image g], Suc g)),
      mkstemp = (\<lambda>exists suffix. Inr (''/tmp/tmp'' @ suffix)),
      save_bmp = (\<lambda>im. Inr [66, 77, img_pixel im 0 0]),
      execvp = stub_cjpeg\<rparr>"

definition stub_env_encoder_fails :: env where
  "stub_env_encoder_fails = stub_env\<lparr>execvp := (\<lambda>args files. Exited 1 [])\<rparr>"

definition stub_env_no_encoder :: env where
  "stub_env_no_encoder = stub_env\<lparr>execvp := (\<lambda>args files. NotFound)\<rparr>"

text \<open>The stub with a pipeline whose image shows the number of inference steps it was
  called with.\<close>

definition stub_env_shows_steps :: env where
  "stub_env_shows_steps =
     stub_env\<lparr>pipeline_run := (\<lambda>p prompt steps g. (Inr [stub_image steps], Suc g))\<rparr>"

text \<open>The centre crop of \<open>stub_image g\<close>, which is what \<open>generate_image\<close> returns with
  the stub pipeline.\<close>

definition stub_cropped :: "rng_state \<Rightarrow> image" where
  "stub_cropped g =
     \<lparr>img_size = (682, 1024),
      img_pixel = (\<lambda>x y. if 0 \<le> x + 171 \<and> x + 171 < 1024 \<and> 0 \<le> y \<and> y < 1024 then g else 0)\<rparr>"

text \<open>The state after a successful start with \<open>stub_env\<close>.\<close>

definition stub_ready :: world where
  "stub_ready = initial_world\<lparr>ml_models :=
     [''sana_sprint'' \<mapsto> PipelineObj (Pipeline ''./sana-local''), ''device'' \<mapsto> StrObj ''cpu'']\<rparr>"

text \<open>A request, and the state once \<open>generate_image\<close> has run for it in \<open>stub_ready\<close>
  with the stub pipeline.\<close>

definition stub_request :: generation_request where
  "stub_request = \<lparr>request_prompt = ''a cat'', request_seed = None\<rparr>"

definition stub_generated :: world where
  "stub_generated = stub_ready\<lparr>pipeline_calls := [(''a cat'', 2, None)], torch_rng := 1\<rparr>"

section \<open>Lemmas\<close>

lemma raise_or_Inr: "raise_or (Inr x) f = f x"
  by (simp add: raise_or_def)

subsection \<open>Rounding to binary64\<close>

lemma rhe_near: "\<bar>x - of_int n\<bar> < 1 / 2 \<Longrightarrow> round_half_even x = n"
proof -
  assume a: "\<bar>x - of_int n\<bar> < 1 / 2"
  show ?thesis
  proof (cases "of_int n \<le> x")
    case True
    with a have "\<lfloor>x\<rfloor> = n" by (intro floor_unique) auto
    with a True show ?thesis by (auto simp: round_half_even_def Let_def)
  next
    case False
    with a have "\<lfloor>x\<rfloor> = n - 1" by (intro floor_unique) auto
    with a False show ?thesis by (auto simp: round_half_even_def Let_def)
  qed
qed

lemma rhe_tie: "x = of_int n - 1 / 2 \<Longrightarrow> even n \<Longrightarrow> round_half_even x = n"
proof -
  assume a: "x = of_int n - 1 / 2" and e: "even n"
  have "\<lfloor>x\<rfloor> = n - 1" using a by (intro floor_unique) auto
  with a e show ?thesis by (auto simp: round_half_even_def Let_def)
qed

lemma rhe_err: "\<bar>of_int (round_half_even x) - x\<bar> \<le> 1 / 2"
proof -
  have "of_int \<lfloor>x\<rfloor> \<le> x" "x < of_int \<lfloor>x\<rfloor> + 1" by linarith+
  then show ?thesis by (auto simp: round_half_even_def Let_def)
qed

lemma binade_unique:
  fixes x :: rat
  assumes "2 powi e \<le> x" "x < 2 powi (e + 1)" "2 powi e' \<le> x" "x < 2 powi (e' + 1)"
  shows "e = e'"
proof -
  have "(2::rat) powi e < 2 powi (e' + 1)" using assms by linarith
  then have 1: "e < e' + 1"
    by (metis not_less power_int_increasing one_le_numeral)
  have "(2::rat) powi e' < 2 powi (e + 1)" using assms by linarith
  then have 2: "e' < e + 1"
    by (metis not_less power_int_increasing one_le_numeral)
  from 1 2 show ?thesis by simp
qed

lemma binade_ge1:
  assumes "1 \<le> x"
  shows "2 powi (binade x) \<le> x \<and> x < 2 powi (binade x + 1)"
proof -
  let ?m = "\<lfloor>x\<rfloor>"
  have m: "0 < ?m" using assms by simp
  have b1: "1 \<le> bitlen ?m" using m bitlen_eq_zero_iff[of ?m] bitlen_nonneg[of ?m] by linarith
  from bitlen_bounds[OF m] have lo: "2 ^ nat (bitlen ?m - 1) \<le> ?m" and hi: "?m < 2 ^ nat (bitlen ?m)" by auto
  have "(2::rat) powi (bitlen ?m - 1) = 2 ^ nat (bitlen ?m - 1)" using b1 by (simp add: power_int_def)
  also have "\<dots> = of_int (2 ^ nat (bitlen ?m - 1))" by simp
  also have "\<dots> \<le> of_int ?m" using lo by (simp only: of_int_le_iff)
  also have "\<dots> \<le> x" by simp
  finally have A: "2 powi (bitlen ?m - 1) \<le> x" .
  have "?m + 1 \<le> 2 ^ nat (bitlen ?m)" using hi by simp
  then have "(of_int (?m + 1) :: rat) \<le> of_int (2 ^ nat (bitlen ?m))" by (simp only: of_int_le_iff)
  moreover have "x < of_int (?m + 1)" by linarith
  ultimately have "x < of_int (2 ^ nat (bitlen ?m))" by linarith
  also have "\<dots> = 2 powi (bitlen ?m)" using b1 by (simp add: power_int_def)
  finally have B: "x < 2 powi (bitlen ?m - 1 + 1)" by simp
  from A B assms show ?thesis by (simp add: binade_def)
qed

lemma binade_lt1:
  assumes "0 < x" "x < 1"
  shows "2 powi (binade x) \<le> x \<and> x < 2 powi (binade x + 1)"
proof -
  let ?c = "\<lceil>1 / x\<rceil> - 1"
  have inv: "1 < 1 / x" using assms by simp
  have c: "0 < ?c" using inv by linarith
  have b1: "1 \<le> bitlen ?c" using c bitlen_eq_zero_iff[of ?c] bitlen_nonneg[of ?c] by linarith
  from bitlen_bounds[OF c] have lo: "2 ^ nat (bitlen ?c - 1) \<le> ?c" and hi: "?c < 2 ^ nat (bitlen ?c)" by auto
  have c_lt: "of_int ?c < 1 / x" by linarith
  have c_ge: "1 / x \<le> of_int (?c + 1)" by simp
  have "(of_int (2 ^ nat (bitlen ?c - 1)) :: rat) \<le> of_int ?c" using lo by (simp only: of_int_le_iff)
  with c_lt have "2 ^ nat (bitlen ?c - 1) < 1 / x" by simp
  then have "x * 2 ^ nat (bitlen ?c - 1) < 1" using assms by (simp add: field_simps)
  then have "x < 1 / 2 ^ nat (bitlen ?c - 1)" by (simp add: field_simps)
  also have "\<dots> = 2 powi (- bitlen ?c + 1)" using b1 by (simp add: power_int_def field_simps)
  finally have B: "x < 2 powi (- bitlen ?c + 1)" .
  have "?c + 1 \<le> 2 ^ nat (bitlen ?c)" using hi by simp
  then have "(of_int (?c + 1) :: rat) \<le> of_int (2 ^ nat (bitlen ?c))" by (simp only: of_int_le_iff)
  from order_trans[OF c_ge this] have "1 / x \<le> of_int (2 ^ nat (bitlen ?c))" .
  also have "\<dots> = 2 ^ nat (bitlen ?c)" by simp
  finally have "1 / x \<le> 2 ^ nat (bitlen ?c)" .
  then have "1 \<le> x * 2 ^ nat (bitlen ?c)" using assms by (simp add: field_simps)
  then have "1 / 2 ^ nat (bitlen ?c) \<le> x" by (simp add: field_simps)
  moreover have "1 / 2 ^ nat (bitlen ?c) = (2::rat) powi (- bitlen ?c)" using b1 by (simp add: power_int_def field_simps)
  ultimately have A: "2 powi (- bitlen ?c) \<le> x" by simp
  from A B assms show ?thesis by (simp add: binade_def)
qed

lemma binade_bounds: "0 < x \<Longrightarrow> 2 powi (binade x) \<le> x \<and> x < 2 powi (binade x + 1)"
  using binade_ge1 binade_lt1 by (cases "1 \<le> x") auto

lemma binade_eq: "2 powi e \<le> x \<Longrightarrow> x < 2 powi (e + 1) \<Longrightarrow> binade x = e"
proof -
  assume a: "2 powi e \<le> x" "x < 2 powi (e + 1)"
  have "(0::rat) < 2 powi e" by simp
  with a have "0 < x" by linarith
  from binade_bounds[OF this] a show ?thesis using binade_unique by blast
qed

lemma float_round_pos:
  assumes "0 < x" "2 powi e \<le> x" "x < 2 powi (e + 1)" "- 1022 \<le> e"
    and "of_int (round_half_even (x / 2 powi (e - 52))) * 2 powi (e - 52) < (2::rat) powi 1024"
  shows "float_round x = Finite (of_int (round_half_even (x / 2 powi (e - 52))) * 2 powi (e - 52))"
proof -
  have b: "binade x = e" using assms(2,3) by (rule binade_eq)
  have m: "max e (- 1022) = e" using assms(4) by simp
  have ax: "\<bar>x\<bar> = x" "x \<noteq> 0" "sgn x = 1" using assms(1) by auto
  show ?thesis
    unfolding float_round_def Let_def ax b m using assms(5) ax(2) by simp
qed

lemma pow2_split: "(2::rat) powi e = 2 ^ 52 * 2 powi (e - 52)"
proof -
  have "(2::rat) powi (52 + (e - 52)) = 2 powi 52 * 2 powi (e - 52)"
    by (rule power_int_add) simp
  then show ?thesis by simp
qed

lemma pow2_split1: "(2::rat) powi (e + 1) = 2 ^ 53 * 2 powi (e - 52)"
proof -
  have "(2::rat) powi (53 + (e - 52)) = 2 powi 53 * 2 powi (e - 52)"
    by (rule power_int_add) simp
  moreover have "53 + (e - 52) = e + 1" by simp
  ultimately have "(2::rat) powi (e + 1) = 2 powi 53 * 2 powi (e - 52)" by (simp only:)
  then show ?thesis by simp
qed

lemma pow2_half: "(2::rat) powi (e - 53) = 2 powi (e - 52) / 2"
proof -
  have "(2::rat) powi ((e - 53) + 1) = 2 powi (e - 53) * 2 powi 1"
    by (rule power_int_add) simp
  then show ?thesis by simp
qed

lemma pow2_top: "e \<le> 1022 \<Longrightarrow> (2::rat) powi (e + 1) < 2 powi 1024"
  by (rule power_int_strict_increasing) auto

lemma float_round_near:
  fixes N :: int and t :: rat
  assumes e: "- 1022 \<le> e" "e \<le> 1022"
    and N: "2 ^ 52 \<le> N" "N < 2 ^ 53"
    and t: "\<bar>t\<bar> < 1 / 2" "0 \<le> t \<or> 2 ^ 52 < N"
  shows "float_round ((of_int N + t) * 2 powi (e - 52)) = Finite (of_int N * 2 powi (e - 52))"
proof -
  let ?u = "(2::rat) powi (e - 52)"
  let ?x = "(of_int N + t) * ?u"
  have u: "0 < ?u" by simp
  have Nlo: "(2::rat) ^ 52 \<le> of_int N + t"
  proof (cases "0 \<le> t")
    case True
    have "(of_int (2 ^ 52) :: rat) \<le> of_int N" using N(1) by (simp only: of_int_le_iff)
    with True show ?thesis by simp
  next
    case False
    with t(2) have "2 ^ 52 + 1 \<le> N" by simp
    then have "(of_int (2 ^ 52 + 1) :: rat) \<le> of_int N" by (simp only: of_int_le_iff)
    with t(1) show ?thesis by simp
  qed
  have "N + 1 \<le> 2 ^ 53" using N(2) by simp
  then have "(of_int (N + 1) :: rat) \<le> of_int (2 ^ 53)" by (simp only: of_int_le_iff)
  then have Nle: "(of_int N :: rat) \<le> 2 ^ 53 - 1" by simp
  with t(1) have Nhi: "of_int N + t < (2::rat) ^ 53" by linarith
  have lo: "2 powi e \<le> ?x"
    unfolding pow2_split[of e] using Nlo u by (intro mult_right_mono) auto
  have hi: "?x < 2 powi (e + 1)"
    unfolding pow2_split1[of e] using Nhi u by (intro mult_strict_right_mono) auto
  have "(0::rat) < 2 powi e" by simp
  then have pos: "0 < ?x" using lo by (rule less_le_trans)
  have q: "?x / ?u = of_int N + t" using u by simp
  have r: "round_half_even (?x / ?u) = N" unfolding q using t(1) by (intro rhe_near) simp
  have "of_int N * ?u < 2 ^ 53 * ?u" using Nle u by (intro mult_strict_right_mono) auto
  also have "\<dots> = 2 powi (e + 1)" by (simp only: pow2_split1)
  also have "\<dots> < 2 powi 1024" using e(2) by (rule pow2_top)
  finally have fin: "of_int N * ?u < 2 powi 1024" .
  from float_round_pos[OF pos lo hi e(1)] fin show ?thesis unfolding r by simp
qed

lemma float_round_tie:
  assumes e: "- 1022 \<le> e" "e \<le> 1022"
  shows "float_round ((2 ^ 53 - 1 / 2) * 2 powi (e - 52)) = Finite (2 powi (e + 1))"
proof -
  let ?u = "(2::rat) powi (e - 52)"
  let ?x = "(2 ^ 53 - 1 / 2) * ?u"
  have u: "0 < ?u" by simp
  have lo: "2 powi e \<le> ?x"
    unfolding pow2_split[of e] using u by (intro mult_right_mono) auto
  have hi: "?x < 2 powi (e + 1)"
    unfolding pow2_split1[of e] using u by (intro mult_strict_right_mono) auto
  have pos: "0 < ?x" using u by (intro mult_pos_pos) auto
  have q: "?x / ?u = of_int (2 ^ 53) - 1 / 2" using u by simp
  have r: "round_half_even (?x / ?u) = 2 ^ 53" unfolding q by (intro rhe_tie) auto
  have fin: "of_int (2 ^ 53) * ?u < 2 powi 1024"
    using pow2_top[OF e(2)] by (simp add: pow2_split1[of e])
  from float_round_pos[OF pos lo hi e(1)] fin show ?thesis unfolding r
    by (simp add: pow2_split1[of e])
qed

lemma float_round_err:
  assumes "2 powi e \<le> x" "x < 2 powi (e + 1)" "- 1022 \<le> e" "e \<le> 1022"
  shows "\<exists>r. float_round x = Finite r \<and> \<bar>r - x\<bar> \<le> 2 powi (e - 53)"
proof -
  let ?u = "(2::rat) powi (e - 52)"
  let ?n = "round_half_even (x / ?u)"
  have u: "0 < ?u" by simp
  have "(0::rat) < 2 powi e" by simp
  with assms(1) have pos: "0 < x" by linarith
  have err: "\<bar>of_int ?n - x / ?u\<bar> \<le> 1 / 2" by (rule rhe_err)
  have "x < 2 ^ 53 * ?u" using assms(2) by (simp only: pow2_split1[of e])
  then have "x / ?u < 2 ^ 53" using u by (simp add: pos_divide_less_eq)
  with err have "(of_int ?n :: rat) < 2 ^ 53 + 1" by linarith
  then have "(of_int ?n :: rat) < of_int (2 ^ 53 + 1)" by simp
  then have "?n < 2 ^ 53 + 1" by (simp only: of_int_less_iff)
  then have "?n \<le> 2 ^ 53" by simp
  then have "(of_int ?n :: rat) \<le> of_int (2 ^ 53)" by (simp only: of_int_le_iff)
  then have "of_int ?n * ?u \<le> 2 ^ 53 * ?u" using u by (intro mult_right_mono) auto
  also have "\<dots> = 2 powi (e + 1)" by (simp only: pow2_split1)
  also have "\<dots> < 2 powi 1024" using assms(4) by (rule pow2_top)
  finally have fin: "of_int ?n * ?u < 2 powi 1024" .
  have eq: "float_round x = Finite (of_int ?n * ?u)"
    using float_round_pos[OF pos assms(1,2,3)] fin by simp
  have "\<bar>of_int ?n * ?u - x\<bar> = \<bar>of_int ?n - x / ?u\<bar> * ?u"
  proof -
    have "of_int ?n * ?u - x = (of_int ?n - x / ?u) * ?u" using u by (simp add: field_simps)
    then show ?thesis using u by (simp add: abs_mult)
  qed
  also have "\<dots> \<le> 1 / 2 * ?u" using err u by (intro mult_right_mono) auto
  also have "\<dots> = 2 powi (e - 53)" by (simp add: pow2_half)
  finally show ?thesis using eq by blast
qed

lemma float_round_perturbed:
  fixes N :: int
  assumes b: "2 powi e \<le> y" "y < 2 powi (e + 1)"
    and e: "- 1022 \<le> e" "e \<le> 1022"
    and y: "y = of_int N * 2 powi (e - 52)"
    and d: "- (1 / 2 ^ 54) \<le> d" "d \<le> 1 / (2 ^ 54 - 1)" "0 \<le> d \<or> y \<noteq> 2 powi e"
  shows "float_round (y * (1 + d)) = Finite y"
proof -
  let ?u = "(2::rat) powi (e - 52)"
  have u: "0 < ?u" by simp
  have "2 ^ 52 * ?u \<le> of_int N * ?u" using b(1) unfolding y pow2_split[of e] .
  then have "(2::rat) ^ 52 \<le> of_int N" using u by simp
  then have "(of_int (2 ^ 52) :: rat) \<le> of_int N" by simp
  then have N1: "2 ^ 52 \<le> N" by (simp only: of_int_le_iff)
  have "of_int N * ?u < 2 ^ 53 * ?u" using b(2) unfolding y pow2_split1[of e] .
  then have "(of_int N :: rat) < 2 ^ 53" using u by simp
  then have "(of_int N :: rat) < of_int (2 ^ 53)" by simp
  then have N2: "N < 2 ^ 53" by (simp only: of_int_less_iff)
  then have "N + 1 \<le> 2 ^ 53" by simp
  then have "(of_int (N + 1) :: rat) \<le> of_int (2 ^ 53)" by (simp only: of_int_le_iff)
  then have Nle: "(of_int N :: rat) \<le> 2 ^ 53 - 1" by simp
  have Npos: "(0::rat) < of_int N" using N1 by simp
  let ?t = "of_int N * d"
  have "?t \<le> of_int N * (1 / (2 ^ 54 - 1))" using d(2) Npos by (intro mult_left_mono) auto
  also have "\<dots> \<le> (2 ^ 53 - 1) * (1 / (2 ^ 54 - 1))" using Nle by (intro mult_right_mono) auto
  also have "\<dots> < 1 / 2" by simp
  finally have t_hi: "?t < 1 / 2" .
  have "- (1 / 2) < (2 ^ 53 - 1) * (- (1 / 2 ^ 54) :: rat)" by simp
  also have "\<dots> \<le> of_int N * (- (1 / 2 ^ 54))" using Nle by (intro mult_right_mono_neg) auto
  also have "\<dots> \<le> ?t" using d(1) Npos by (intro mult_left_mono) auto
  finally have t_lo: "- (1 / 2) < ?t" .
  have t: "\<bar>?t\<bar> < 1 / 2" using t_lo t_hi by (simp add: abs_less_iff)
  have t2: "0 \<le> ?t \<or> 2 ^ 52 < N"
  proof (cases "0 \<le> d")
    case True
    then show ?thesis using Npos by simp
  next
    case False
    with d(3) have "y \<noteq> 2 powi e" by simp
    then have "N \<noteq> 2 ^ 52" unfolding y pow2_split[of e] by auto
    with N1 show ?thesis by simp
  qed
  have eq: "y * (1 + d) = (of_int N + ?t) * ?u" unfolding y by (simp add: algebra_simps)
  have "float_round (y * (1 + d)) = float_round ((of_int N + ?t) * ?u)" by (simp only: eq)
  also have "\<dots> = Finite (of_int N * ?u)" by (rule float_round_near[OF e N1 N2 t t2])
  also have "\<dots> = Finite y" by (simp only: y)
  finally show ?thesis .
qed

lemma float_round_below_pow2:
  assumes "- 1021 \<le> p" "p \<le> 1023"
  shows "float_round (2 powi p * (1 - 1 / 2 ^ 54)) = Finite (2 powi p)"
proof -
  have e: "- 1022 \<le> p - 1" "p - 1 \<le> 1022" using assms by auto
  have "(2::rat) powi p * (1 - 1 / 2 ^ 54) = (2 ^ 53 - 1 / 2) * 2 powi (p - 1 - 52)"
    using pow2_split1[of "p - 1"] by (simp add: algebra_simps)
  with float_round_tie[OF e] show ?thesis by simp
qed

text \<open>Half-integers below 2^52 are binary64 numbers.\<close>
lemma half_int_binade:
  fixes m :: int
  assumes m: "1 \<le> m" "m < 2 ^ 53"
  shows "- 1 \<le> binade (of_int m / 2) \<and> binade (of_int m / 2) \<le> 51"
proof -
  let ?y = "of_int m / 2 :: rat"
  let ?e = "binade ?y"
  have pos: "0 < ?y" using m by simp
  from binade_bounds[OF pos] have b: "2 powi ?e \<le> ?y" "?y < 2 powi (?e + 1)" by auto
  have "(of_int 1 :: rat) \<le> of_int m" using m(1) by (simp only: of_int_le_iff)
  then have "(2::rat) powi (- 1) \<le> ?y" by simp
  with b(2) have "(2::rat) powi (- 1) < 2 powi (?e + 1)" by linarith
  then have 1: "- 1 < ?e + 1" by (metis not_less power_int_increasing one_le_numeral)
  have "(of_int m :: rat) < of_int (2 ^ 53)" using m(2) by (simp only: of_int_less_iff)
  then have "?y < 2 powi 52" by simp
  with b(1) have "(2::rat) powi ?e < 2 powi 52" by linarith
  then have 2: "?e < 52" by (metis not_less power_int_increasing one_le_numeral)
  from 1 2 show ?thesis by simp
qed

lemma half_int_repr:
  fixes m :: int
  assumes m: "1 \<le> m" "m < 2 ^ 53"
  shows "\<exists>N::int. (of_int m / 2 :: rat) = of_int N * 2 powi (binade (of_int m / 2) - 52)"
proof -
  let ?e = "binade (of_int m / 2 :: rat)"
  from half_int_binade[OF m] have e: "- 1 \<le> ?e" "?e \<le> 51" by auto
  define k where "k = nat (51 - ?e)"
  have ek: "?e - 52 = - int (Suc k)" using e by (simp add: k_def)
  have "(2::rat) powi (?e - 52) = 1 / 2 ^ Suc k"
    unfolding ek by (simp only: power_int_minus power_int_of_nat inverse_eq_divide)
  then have "of_int m / 2 = (of_int (m * 2 ^ k) :: rat) * 2 powi (?e - 52)" by simp
  then show ?thesis by (rule exI)
qed

lemma float_round_half_int_up:
  fixes m :: int
  assumes m: "1 \<le> m" "m < 2 ^ 53"
    and d: "0 \<le> d" "d \<le> 1 / (2 ^ 54 - 1)"
  shows "float_round (of_int m / 2 * (1 + d)) = Finite (of_int m / 2)"
proof -
  let ?y = "of_int m / 2 :: rat"
  let ?e = "binade ?y"
  have pos: "0 < ?y" using m by simp
  from binade_bounds[OF pos] have b: "2 powi ?e \<le> ?y" "?y < 2 powi (?e + 1)" by auto
  from half_int_binade[OF m] have e: "- 1022 \<le> ?e" "?e \<le> 1022" by auto
  from half_int_repr[OF m] obtain N :: int where N: "?y = of_int N * 2 powi (?e - 52)" ..
  have d1: "- (1 / 2 ^ 54) \<le> d" using d(1) by simp
  have d3: "0 \<le> d \<or> ?y \<noteq> 2 powi ?e" using d(1) by simp
  from float_round_perturbed[OF b e N d1 d(2) d3] show ?thesis .
qed

lemma float_round_half_int_down:
  fixes m :: int
  assumes m: "1 \<le> m" "m < 2 ^ 53"
  shows "float_round (of_int m / 2 * (1 - 1 / 2 ^ 54)) = Finite (of_int m / 2)"
proof -
  let ?y = "of_int m / 2 :: rat"
  let ?e = "binade ?y"
  have pos: "0 < ?y" using m by simp
  from binade_bounds[OF pos] have b: "2 powi ?e \<le> ?y" "?y < 2 powi (?e + 1)" by auto
  from half_int_binade[OF m] have e: "- 1022 \<le> ?e" "?e \<le> 1022" by auto
  from half_int_repr[OF m] obtain N :: int where N: "?y = of_int N * 2 powi (?e - 52)" ..
  show ?thesis
  proof (cases "?y = 2 powi ?e")
    case True
    have e': "- 1021 \<le> ?e" "?e \<le> 1023" using half_int_binade[OF m] by auto
    from float_round_below_pow2[OF e'] show ?thesis unfolding True[symmetric] .
  next
    case False
    have d1: "- (1 / 2 ^ 54) \<le> - (1 / 2 ^ 54 :: rat)" by simp
    have d2: "- (1 / 2 ^ 54 :: rat) \<le> 1 / (2 ^ 54 - 1)" by simp
    have d3: "0 \<le> - (1 / 2 ^ 54 :: rat) \<or> ?y \<noteq> 2 powi ?e" using False by simp
    from float_round_perturbed[OF b e N d1 d2 d3] show ?thesis by simp
  qed
qed

lemma pow2_m53: "(2::rat) powi (- 1 - 52) = 1 / 9007199254740992"
proof -
  have "(2::rat) powi (- 53) = inverse (2 powi 53)" by (rule power_int_minus)
  also have "\<dots> = 1 / 2 ^ 53" by (simp add: inverse_eq_divide)
  also have "\<dots> = 1 / 9007199254740992" by simp
  finally show ?thesis by simp
qed

lemma float_round_2_3: "float_round (2 / 3) = Finite target_ratio"
proof -
  have e: "- 1022 \<le> (- 1 :: int)" "(- 1 :: int) \<le> 1022" by simp_all
  have N: "2 ^ 52 \<le> (6004799503160661 :: int)" "(6004799503160661 :: int) < 2 ^ 53" by simp_all
  have t: "\<bar>1 / 3 :: rat\<bar> < 1 / 2" "0 \<le> (1 / 3 :: rat) \<or> 2 ^ 52 < (6004799503160661 :: int)" by simp_all
  have A: "float_round ((of_int 6004799503160661 + 1 / 3) * 2 powi (- 1 - 52))
      = Finite (of_int 6004799503160661 * 2 powi (- 1 - 52))"
    by (rule float_round_near[OF e N t])
  have B: "(of_int 6004799503160661 + 1 / 3) * (2::rat) powi (- 1 - 52) = 2 / 3"
    unfolding pow2_m53 by simp
  have C: "of_int 6004799503160661 * (2::rat) powi (- 1 - 52) = target_ratio"
    unfolding pow2_m53 target_ratio_def by simp
  show ?thesis using A unfolding B C .
qed

lemma int_truediv_2_3: "int_truediv 2 3 = Inr target_ratio"
proof -
  have "(of_int 2 :: rat) / of_int 3 = 2 / 3" by simp
  then show ?thesis unfolding int_truediv_def by (simp add: float_round_2_3)
qed

lemma int_to_float_exact:
  assumes "1 \<le> w" "w < 2 ^ 52"
  shows "int_to_float w = Inr (of_int w)"
proof -
  have m: "1 \<le> 2 * w" "2 * w < 2 ^ 53" using assms by auto
  have "float_round (of_int (2 * w) / 2 * (1 + 0)) = Finite (of_int (2 * w) / 2)"
    by (rule float_round_half_int_up[OF m]) simp_all
  then have "float_round (of_int w) = Finite (of_int w)" by simp
  then show ?thesis by (simp add: int_to_float_def)
qed

lemma int_div_target_ratio:
  assumes "1 \<le> w" "w < 2 ^ 31"
  shows "int_div_float w target_ratio = Inr (Finite (of_int (3 * w) / 2))"
proof -
  have w52: "w < 2 ^ 52" using assms(2) by simp
  have m: "1 \<le> 3 * w" "3 * w < 2 ^ 53" using assms by auto
  have A: "float_round (of_int (3 * w) / 2 * (1 + 1 / (2 ^ 54 - 1))) = Finite (of_int (3 * w) / 2)"
    by (rule float_round_half_int_up[OF m]) simp_all
  have B: "of_int (3 * w) / 2 * (1 + 1 / (2 ^ 54 - 1)) = (of_int w :: rat) / target_ratio"
    by (simp add: target_ratio_def)
  have "float_round (of_int w / target_ratio) = Finite (of_int (3 * w) / 2)"
    using A unfolding B .
  moreover have "target_ratio \<noteq> 0" by (simp add: target_ratio_def)
  ultimately show ?thesis
    by (simp add: int_div_float_def int_to_float_exact[OF assms(1) w52] raise_or_def)
qed

lemma py_int_div_target_ratio:
  assumes "1 \<le> w" "w < 2 ^ 31"
  shows "raise_or (int_div_float w target_ratio) py_int = Inr (3 * w div 2)"
proof -
  have "\<lfloor>(of_int (3 * w) :: rat) / of_int 2\<rfloor> = 3 * w div 2" by (rule floor_divide_of_int_eq)
  then have "\<lfloor>(of_int (3 * w) :: rat) / 2\<rfloor> = 3 * w div 2" by simp
  moreover have "(0::rat) \<le> of_int (3 * w) / 2" using assms(1) by simp
  ultimately show ?thesis
    unfolding int_div_target_ratio[OF assms] raise_or_Inr py_int_def by simp
qed

lemma int_mul_target_ratio_exact:
  assumes "1 \<le> j" "j < 2 ^ 31"
  shows "int_mul_float (3 * j) target_ratio = Inr (Finite (of_int (2 * j)))"
proof -
  have h52: "1 \<le> 3 * j" "3 * j < 2 ^ 52" using assms by auto
  have m: "1 \<le> 4 * j" "4 * j < 2 ^ 53" using assms by auto
  have A: "float_round (of_int (4 * j) / 2 * (1 - 1 / 2 ^ 54)) = Finite (of_int (4 * j) / 2)"
    by (rule float_round_half_int_down[OF m])
  have B: "of_int (4 * j) / 2 * (1 - 1 / 2 ^ 54) = (of_int (3 * j) :: rat) * target_ratio"
    by (simp add: target_ratio_def)
  have C: "(of_int (4 * j) / 2 :: rat) = of_int (2 * j)" by simp
  have A': "float_round (of_int (3 * j) * target_ratio) = Finite (of_int (4 * j) / 2)"
    using A unfolding B .
  have "float_round (of_int (3 * j) * target_ratio) = Finite (of_int (2 * j))"
    using A' unfolding C .
  then show ?thesis
    by (simp add: int_mul_float_def int_to_float_exact[OF h52] raise_or_def)
qed

lemma int_mul_target_ratio_inexact:
  assumes h: "1 \<le> h" "h < 2 ^ 31" and s: "s = 1 \<or> s = 2" and q: "2 * h = 3 * q + s"
  shows "\<exists>r. int_mul_float h target_ratio = Inr (Finite r) \<and> of_int q < r \<and> r < of_int q + 1"
proof -
  have h52: "h < 2 ^ 52" using h(2) by simp
  let ?x = "of_int h * target_ratio"
  let ?e = "binade ?x"
  have hr: "(1::rat) \<le> of_int h" "(of_int h :: rat) < 2 ^ 31"
    using h of_int_le_iff[of 1 h, where ?'a = rat] of_int_less_iff[of h "2 ^ 31", where ?'a = rat] by simp_all
  have xlo: "1 / 2 < ?x" using hr(1) by (simp add: target_ratio_def)
  have xhi: "?x < 2 ^ 31" using hr by (simp add: target_ratio_def)
  have pos: "0 < ?x" using xlo by simp
  from binade_bounds[OF pos] have b: "2 powi ?e \<le> ?x" "?x < 2 powi (?e + 1)" by auto
  have "(2::rat) powi (- 1) < 2 powi (?e + 1)" using xlo b(2) by simp
  then have e1: "- 1 < ?e + 1" by (metis not_less power_int_increasing one_le_numeral)
  have "(2::rat) powi ?e < 2 powi 31" using xhi b(1) by simp
  then have e2: "?e < 31" by (metis not_less power_int_increasing one_le_numeral)
  have e: "- 1022 \<le> ?e" "?e \<le> 1022" using e1 e2 by auto
  from float_round_err[OF b e] obtain r where r: "float_round ?x = Finite r"
    and err: "\<bar>r - ?x\<bar> \<le> 2 powi (?e - 53)" by blast
  have "(2::rat) powi (?e - 53) \<le> 2 powi (- 23)" using e2 by (intro power_int_increasing) auto
  also have "(2::rat) powi (- 23) = 1 / 8388608" by simp
  finally have "\<bar>r - ?x\<bar> \<le> 1 / 8388608" using err by linarith
  then have err': "r - ?x \<le> 1 / 8388608" "?x - r \<le> 1 / 8388608" by linarith+
  have hq: "(of_int h :: rat) = (3 * of_int q + of_int s) / 2"
  proof -
    have "(of_int (2 * h) :: rat) = of_int (3 * q + s)" by (simp only: q)
    then show ?thesis by simp
  qed
  have sr: "(1::rat) \<le> of_int s" "(of_int s :: rat) \<le> 2" using s by auto
  have qr: "(0::rat) \<le> of_int q" "(of_int q :: rat) < 2 ^ 31"
  proof -
    have "0 \<le> q" using h q s by auto
    then show "(0::rat) \<le> of_int q" by simp
    have "q < 2 ^ 31" using h q s by auto
    then show "(of_int q :: rat) < 2 ^ 31" using of_int_less_iff[of q "2 ^ 31", where ?'a = rat] by simp
  qed
  have x1: "of_int q + 1 / 3 - 1 / 8388608 < ?x"
    unfolding hq target_ratio_def using sr qr by simp
  have x2: "?x < of_int q + 2 / 3"
    unfolding hq target_ratio_def using sr qr by simp
  have "of_int q < r" using x1 err'(2) by linarith
  moreover have "r < of_int q + 1" using x2 err'(1) by linarith
  ultimately show ?thesis
    by (simp add: int_mul_float_def int_to_float_exact[OF h(1) h52] raise_or_def r)
qed

lemma py_int_of_int: "py_int (Finite (of_int k)) = Inr k"
  by (simp add: py_int_def)

lemma py_int_mul_target_ratio:
  assumes h: "1 \<le> h" "h < 2 ^ 31"
  shows "raise_or (int_mul_float h target_ratio) py_int = Inr (2 * h div 3)"
proof -
  define q where "q = 2 * h div 3"
  define s where "s = 2 * h mod 3"
  have q: "2 * h = 3 * q + s" by (simp add: q_def s_def)
  have s: "s = 0 \<or> s = 1 \<or> s = 2" unfolding s_def by presburger
  show ?thesis
  proof (cases "s = 0")
    case True
    with q have "2 * h = 3 * q" by simp
    then have "3 dvd h" by presburger
    then obtain j where j: "h = 3 * j" ..
    with h have jb: "1 \<le> j" "j < 2 ^ 31" by auto
    have "2 * h div 3 = 2 * j" using j by simp
    then show ?thesis
      unfolding j int_mul_target_ratio_exact[OF jb] raise_or_Inr py_int_of_int by (simp only:)
  next
    case False
    with s have s': "s = 1 \<or> s = 2" by simp
    from int_mul_target_ratio_inexact[OF h s' q] obtain r where
      r: "int_mul_float h target_ratio = Inr (Finite r)" "of_int q < r" "r < of_int q + 1" by blast
    have "\<lfloor>r\<rfloor> = q" using r(2,3) by (intro floor_unique) auto
    moreover have "0 \<le> q" unfolding q_def using h(1) by simp
    then have "(0::rat) \<le> of_int q" by simp
    then have "0 \<le> r" using r(2) by linarith
    ultimately show ?thesis unfolding r(1) raise_or_Inr py_int_def q_def by simp
  qed
qed


lemma crop_box_eq:
  assumes "1 \<le> width" "width < 2 ^ 31" "1 \<le> height" "height < 2 ^ 31"
  shows "crop_box width height = Inr (crop_box_int width height)"
  unfolding crop_box_def int_truediv_2_3 raise_or_Inr
    py_int_div_target_ratio[OF assms(1,2)] py_int_mul_target_ratio[OF assms(3,4)]
  by (simp add: crop_box_int_def raise_or_def Let_def)

lemma crop_box_int_props:
  assumes "1 \<le> width" "1 \<le> height" "crop_box_int width height = (l, t, r, b)"
  shows "0 \<le> l \<and> l \<le> r \<and> r \<le> width \<and> 0 \<le> t \<and> t \<le> b \<and> b \<le> height
    \<and> \<bar>3 * (r - l) - 2 * (b - t)\<bar> \<le> 2
    \<and> \<bar>l + r - width\<bar> \<le> 1 \<and> \<bar>t + b - height\<bar> \<le> 1"
  using assms unfolding crop_box_int_def Let_def
  by (auto split: if_splits)

subsection \<open>Sequencing and frames\<close>

lemma and_then_Inl: "and_then (Inl e, w) f = (Inl e, w)"
  by (simp add: and_then_def)

lemma and_then_Inr: "and_then (Inr x, w) f = f x w"
  by (simp add: and_then_def)

lemma and_then_rel:
  assumes m: "R w (snd m)"
    and f: "\<And>x w1. R w1 (snd (f x w1))"
    and trans: "\<And>a b c. R a b \<Longrightarrow> R b c \<Longrightarrow> R a c"
  shows "R w (snd (and_then m f))"
proof (cases m)
  case (Pair r w1)
  show ?thesis
  proof (cases r)
    case (Inl e)
    with Pair m show ?thesis by (simp add: and_then_Inl)
  next
    case (Inr x)
    with Pair m trans[OF _ f[of w1 x]] show ?thesis by (simp add: and_then_Inr)
  qed
qed

lemma call_pipeline_frame:
  "ml_models (snd (call_pipeline env pl prompt n g w)) = ml_models w"
  "fs (snd (call_pipeline env pl prompt n g w)) = fs w"
  "subprocess_calls (snd (call_pipeline env pl prompt n g w)) = subprocess_calls w"
  by (auto simp: call_pipeline_def Let_def split: ml_value.splits option.splits generator.splits prod.splits)

lemma generate_image_snd:
  "snd (generate_image env pl device prompt seed w) =
     (case make_generator env device seed of
        Inl e \<Rightarrow> w
      | Inr g \<Rightarrow> snd (call_pipeline env pl prompt 2 g w))"
  by (simp add: generate_image_def and_then_def split: sum.splits prod.splits)

lemma generate_image_frame:
  "ml_models (snd (generate_image env pl device prompt seed w)) = ml_models w"
  "fs (snd (generate_image env pl device prompt seed w)) = fs w"
  "subprocess_calls (snd (generate_image env pl device prompt seed w)) = subprocess_calls w"
  by (simp_all add: generate_image_snd call_pipeline_frame split: sum.splits)

lemma named_temporary_file_frame:
  "ml_models (snd (named_temporary_file env suffix w)) = ml_models w"
  "pipeline_calls (snd (named_temporary_file env suffix w)) = pipeline_calls w"
  "subprocess_calls (snd (named_temporary_file env suffix w)) = subprocess_calls w"
  by (auto simp: named_temporary_file_def split: sum.splits option.splits)

lemma image_save_frame:
  "ml_models (snd (image_save env im name w)) = ml_models w"
  "pipeline_calls (snd (image_save env im name w)) = pipeline_calls w"
  "subprocess_calls (snd (image_save env im name w)) = subprocess_calls w"
  by (auto simp: image_save_def split: sum.splits)

lemma subprocess_run_frame:
  "ml_models (snd (subprocess_run env args check w)) = ml_models w"
  "pipeline_calls (snd (subprocess_run env args check w)) = pipeline_calls w"
  by (auto simp: subprocess_run_def Let_def split: list.splits proc_outcome.splits)

lemma read_file_frame: "snd (read_file name w) = w"
  by (simp add: read_file_def split: option.splits)

lemma encode_mozjpeg_ml_models: "ml_models (snd (encode_mozjpeg env im w)) = ml_models w"
  unfolding encode_mozjpeg_def
  by (intro and_then_rel[where R = "\<lambda>a b. ml_models b = ml_models a"])
     (simp_all add: named_temporary_file_frame image_save_frame subprocess_run_frame read_file_frame)

lemma encode_mozjpeg_pipeline_calls: "pipeline_calls (snd (encode_mozjpeg env im w)) = pipeline_calls w"
  unfolding encode_mozjpeg_def
  by (intro and_then_rel[where R = "\<lambda>a b. pipeline_calls b = pipeline_calls a"])
     (simp_all add: named_temporary_file_frame image_save_frame subprocess_run_frame read_file_frame)

lemma api_generate_image_snd:
  "snd (api_generate_image env request w) =
     (case ml_models w ''sana_sprint'' of
        None \<Rightarrow> w
      | Some pl \<Rightarrow>
          if \<not> truthy (Some pl) then w
          else snd (and_then (generate_image env pl (ml_models w ''device'')
                      (request_prompt request) (request_seed request) w) (encode_mozjpeg env)))"
  by (simp add: api_generate_image_def Let_def split: option.splits prod.splits sum.splits)

lemma api_generate_image_ml_models:
  "ml_models (snd (api_generate_image env request w)) = ml_models w"
  unfolding api_generate_image_snd
  by (auto split: option.splits
      intro!: and_then_rel[where R = "\<lambda>a b. ml_models b = ml_models a"]
      simp: generate_image_frame encode_mozjpeg_ml_models)

lemma and_then_pres:
  assumes "\<And>x w1. g (snd (f x w1)) = g w1"
  shows "g (snd (and_then m f)) = g (snd m)"
  using assms by (cases m) (auto simp: and_then_def split: sum.splits)

lemma call_pipeline_calls:
  "pipeline_calls (snd (call_pipeline env pl prompt n g w)) =
     pipeline_calls w @ (case pl of StrObj _ \<Rightarrow> [] | PipelineObj _ \<Rightarrow> [(prompt, n, g)])"
  by (auto simp: call_pipeline_def Let_def split: ml_value.splits option.splits generator.splits prod.splits)

lemma generate_image_calls:
  "pipeline_calls (snd (generate_image env pl device prompt seed w)) =
     pipeline_calls w @
       (case make_generator env device seed of
          Inl e \<Rightarrow> []
        | Inr g \<Rightarrow> (case pl of StrObj _ \<Rightarrow> [] | PipelineObj _ \<Rightarrow> [(prompt, 2, g)]))"
  by (simp add: generate_image_snd call_pipeline_calls split: sum.splits)

lemma api_generate_image_calls:
  "pipeline_calls (snd (api_generate_image env request w)) =
     pipeline_calls w @
       (case ml_models w ''sana_sprint'' of
          None \<Rightarrow> []
        | Some pl \<Rightarrow>
            if \<not> truthy (Some pl) then []
            else (case make_generator env (ml_models w ''device'') (request_seed request) of
                    Inl e \<Rightarrow> []
                  | Inr g \<Rightarrow> (case pl of StrObj _ \<Rightarrow> []
                              | PipelineObj _ \<Rightarrow> [(request_prompt request, 2, g)])))"
  unfolding api_generate_image_snd
  by (simp add: and_then_pres[where g = pipeline_calls] encode_mozjpeg_pipeline_calls
      generate_image_calls split: option.splits)

lemma handle_ml_models: "ml_models (snd (handle env r w)) = ml_models w"
proof (cases r)
  case GetHealth
  then show ?thesis by (simp add: handle_def)
next
  case (PostGenerate g)
  have "snd (handle env (PostGenerate g) w) = snd (api_generate_image env g w)"
    by (simp add: handle_def split: prod.splits)
  with PostGenerate show ?thesis by (simp add: api_generate_image_ml_models)
qed

lemma serve_ml_models: "ml_models (serve env rs w) = ml_models w"
  by (induction rs arbitrary: w) (simp_all add: handle_ml_models)

lemma startup_loaded:
  "lifetime_startup env w = (Inr u, w') \<Longrightarrow> ml_models w' ''sana_sprint'' \<noteq> None"
  by (auto simp: lifetime_startup_def Let_def split: sum.splits)

lemma startup_failed:
  "lifetime_startup env w = (Inl e, w') \<Longrightarrow> ml_models w' ''sana_sprint'' = None"
  by (auto simp: lifetime_startup_def lifetime_cleanup_def Let_def split: sum.splits)

lemma stub_crop: "image_crop (stub_image g) (171, 0, 853, 1024) = Inr (stub_cropped g)"
  by (simp add: image_crop_def stub_image_def stub_cropped_def fun_eq_iff)

lemma crop_box_1024: "crop_box 1024 1024 = Inr (171, 0, 853, 1024)"
proof -
  have "crop_box 1024 1024 = Inr (crop_box_int 1024 1024)"
    by (rule crop_box_eq) simp_all
  then show ?thesis by (simp add: crop_box_int_def)
qed

lemma stub_generate_image_unseeded:
  assumes "seed = None \<or> seed = Some 0"
  shows "generate_image stub_env (PipelineObj p) device prompt seed w =
     (Inr (stub_cropped (torch_rng w)),
      w\<lparr>pipeline_calls := pipeline_calls w @ [(prompt, 2, None)], torch_rng := Suc (torch_rng w)\<rparr>)"
  using assms
  by (auto simp: generate_image_def make_generator_def call_pipeline_def and_then_def
      first_image_def raise_or_def stub_env_def Let_def crop_box_1024 stub_crop
      stub_image_def[THEN arg_cong[where f = img_size]])

lemma named_temporary_file_Inr:
  assumes "named_temporary_file env suffix w = (Inr name, w1)"
  shows "fs w name = None" and "w1 = w\<lparr>fs := (fs w)(name \<mapsto> [])\<rparr>"
  using assms by (auto simp: named_temporary_file_def split: sum.splits option.splits)

lemma image_save_Inr:
  assumes "image_save env im name w = (Inr u, w1)"
  shows "\<exists>data. save_bmp env im = Inr data \<and> w1 = w\<lparr>fs := (fs w)(name \<mapsto> data)\<rparr>"
  using assms by (auto simp: image_save_def split: sum.splits)

lemma fold_writes_keeps:
  "m p \<noteq> None \<Longrightarrow> fold (\<lambda>(p, d) m. m(p \<mapsto> d)) ws m p \<noteq> None"
  by (induction ws arbitrary: m) (auto split: prod.splits)

lemma named_temporary_file_keeps:
  "fs w p \<noteq> None \<Longrightarrow> fs (snd (named_temporary_file env suffix w)) p \<noteq> None"
  by (auto simp: named_temporary_file_def split: sum.splits option.splits)

lemma image_save_keeps:
  "fs w p \<noteq> None \<Longrightarrow> fs (snd (image_save env im name w)) p \<noteq> None"
  by (auto simp: image_save_def split: sum.splits)

lemma subprocess_run_keeps:
  "fs w p \<noteq> None \<Longrightarrow> fs (snd (subprocess_run env args check w)) p \<noteq> None"
  using fold_writes_keeps[of "fs w" p]
  by (auto simp: subprocess_run_def Let_def split: list.splits proc_outcome.splits)

lemma read_file_keeps:
  "fs w p \<noteq> None \<Longrightarrow> fs (snd (read_file name w)) p \<noteq> None"
  by (simp add: read_file_frame)

lemma encode_mozjpeg_keeps:
  "fs w p \<noteq> None \<longrightarrow> fs (snd (encode_mozjpeg env im w)) p \<noteq> None"
  unfolding encode_mozjpeg_def
  by (intro and_then_rel[where R = "\<lambda>a b. fs a p \<noteq> None \<longrightarrow> fs b p \<noteq> None"])
     (simp_all add: named_temporary_file_keeps image_save_keeps subprocess_run_keeps read_file_keeps)

lemma api_generate_image_keeps:
  "fs w p \<noteq> None \<longrightarrow> fs (snd (api_generate_image env request w)) p \<noteq> None"
proof -
  have "fs w p \<noteq> None \<longrightarrow> fs (snd (and_then (generate_image env pl device prompt seed w)
          (encode_mozjpeg env))) p \<noteq> None" for pl device prompt seed
    by (rule and_then_rel[where R = "\<lambda>a b. fs a p \<noteq> None \<longrightarrow> fs b p \<noteq> None"])
       (simp_all add: generate_image_frame encode_mozjpeg_keeps)
  then show ?thesis
    unfolding api_generate_image_snd by (simp split: option.splits)
qed

lemma encode_mozjpeg_run:
  assumes "named_temporary_file env ''.bmp'' w = (Inr tmp_bmp, w1)"
    and "image_save env im tmp_bmp w1 = (Inr (), w2)"
    and "named_temporary_file env ''.jpg'' w2 = (Inr tmp_jpg, w3)"
  shows "encode_mozjpeg env im w =
     and_then (subprocess_run env
                 [''cjpeg'', ''-quality'', ''85'', ''-progressive'', ''-outfile'', tmp_jpg, tmp_bmp]
                 True w3) (\<lambda>_. read_file tmp_jpg)"
  using assms by (simp add: encode_mozjpeg_def and_then_Inr)

lemma encode_files:
  assumes t1: "named_temporary_file env ''.bmp'' w = (Inr tmp_bmp, w1)"
    and s: "image_save env im tmp_bmp w1 = (Inr (), w2)"
    and t2: "named_temporary_file env ''.jpg'' w2 = (Inr tmp_jpg, w3)"
  shows "fs w tmp_bmp = None" and "fs w tmp_jpg = None" and "tmp_jpg \<noteq> tmp_bmp"
    and "fs w3 tmp_jpg = Some []" and "\<exists>data. save_bmp env im = Inr data \<and> fs w3 tmp_bmp = Some data"
    and "subprocess_calls w3 = subprocess_calls w"
proof -
  from named_temporary_file_Inr[OF t1] have a: "fs w tmp_bmp = None" "w1 = w\<lparr>fs := (fs w)(tmp_bmp \<mapsto> [])\<rparr>" .
  from image_save_Inr[OF s] obtain data where d: "save_bmp env im = Inr data"
    "w2 = w1\<lparr>fs := (fs w1)(tmp_bmp \<mapsto> data)\<rparr>" by blast
  from named_temporary_file_Inr[OF t2] have c: "fs w2 tmp_jpg = None" "w3 = w2\<lparr>fs := (fs w2)(tmp_jpg \<mapsto> [])\<rparr>" .
  show "fs w tmp_bmp = None" by (rule a(1))
  show ne: "tmp_jpg \<noteq> tmp_bmp" using c(1) d(2) by auto
  show "fs w tmp_jpg = None" using c(1) d(2) a(2) ne by (auto split: if_splits)
  show "fs w3 tmp_jpg = Some []" using c(2) by simp
  show "\<exists>data. save_bmp env im = Inr data \<and> fs w3 tmp_bmp = Some data"
    using d c(2) ne by auto
  show "subprocess_calls w3 = subprocess_calls w" using a(2) d(2) c(2) by simp
qed

lemma subprocess_run_outcome:
  "subprocess_calls (snd (subprocess_run env (prog # rest) check w)) = subprocess_calls w @ [prog # rest]"
  "execvp env (prog # rest) (fs w) = NotFound \<Longrightarrow>
     fst (subprocess_run env (prog # rest) check w) = Inl (FileNotFoundError prog)"
  "execvp env (prog # rest) (fs w) = Exited rc ws \<Longrightarrow> rc \<noteq> 0 \<Longrightarrow>
     fst (subprocess_run env (prog # rest) True w) = Inl (CalledProcessError rc (prog # rest))"
  "execvp env (prog # rest) (fs w) = Exited 0 ws \<Longrightarrow>
     fst (subprocess_run env (prog # rest) check w) = Inr 0
     \<and> fs (snd (subprocess_run env (prog # rest) check w)) = fold (\<lambda>(p, d) m. m(p \<mapsto> d)) ws (fs w)"
  by (auto simp: subprocess_run_def Let_def split: proc_outcome.splits)

lemma and_then_fst_Inl: "fst m = Inl e \<Longrightarrow> and_then m f = (Inl e, snd m)"
  by (cases m) (simp add: and_then_def)

lemma and_then_fst_Inr: "fst m = Inr x \<Longrightarrow> and_then m f = f x (snd m)"
  by (cases m) (simp add: and_then_def)

lemma api_generate_image_run:
  assumes "ml_models w ''sana_sprint'' = Some pl" "truthy (Some pl)"
    and "generate_image env pl (ml_models w ''device'') (request_prompt request) (request_seed request) w
           = (Inr pil_image, w0)"
  shows "api_generate_image env request w =
     (case encode_mozjpeg env pil_image w0 of
        (Inl e, w') \<Rightarrow> (Inl (HTTPException 500 (Formatted ''Image generation failed: '' e)), w')
      | (Inr img_data, w') \<Rightarrow> (Inr \<lparr>content = img_data, media_type = ''image/jpeg''\<rparr>, w'))"
  using assms by (simp add: api_generate_image_def and_then_Inr)

lemma stub_image_size: "img_size (stub_image g) = (1024, 1024)"
  by (simp add: stub_image_def)

lemma stub_cropped_pixel: "img_pixel (stub_cropped g) 0 0 = g"
  by (simp add: stub_cropped_def)

lemmas stub_eval =
  api_generate_image_def generate_image_def make_generator_def call_pipeline_def and_then_def
  first_image_def raise_or_def encode_mozjpeg_def named_temporary_file_def image_save_def
  subprocess_run_def read_file_def truthy_def stub_env_def stub_env_encoder_fails_def
  stub_env_no_encoder_def stub_ready_def initial_world_def stub_cjpeg_def Let_def
  crop_box_1024 stub_crop stub_image_size stub_cropped_pixel

lemma stub_run:
  "api_generate_image stub_env \<lparr>request_prompt = p, request_seed = None\<rparr> stub_ready =
     (Inr \<lparr>content = [255, 216, 66, 77, 0], media_type = ''image/jpeg''\<rparr>,
      stub_ready\<lparr>fs := [''/tmp/tmp.bmp'' \<mapsto> [66, 77, 0], ''/tmp/tmp.jpg'' \<mapsto> [255, 216, 66, 77, 0]],
                 torch_rng := 1,
                 pipeline_calls := [(p, 2, None)],
                 subprocess_calls := [[''cjpeg'', ''-quality'', ''85'', ''-progressive'', ''-outfile'',
                                       ''/tmp/tmp.jpg'', ''/tmp/tmp.bmp'']]\<rparr>)"
  by (simp add: stub_eval)

lemma stub_run_encoder_fails:
  "api_generate_image stub_env_encoder_fails \<lparr>request_prompt = p, request_seed = None\<rparr> stub_ready =
     (Inl (HTTPException 500 (Formatted ''Image generation failed: ''
        (CalledProcessError 1 [''cjpeg'', ''-quality'', ''85'', ''-progressive'', ''-outfile'',
                               ''/tmp/tmp.jpg'', ''/tmp/tmp.bmp'']))),
      stub_ready\<lparr>fs := [''/tmp/tmp.bmp'' \<mapsto> [66, 77, 0], ''/tmp/tmp.jpg'' \<mapsto> []],
                 torch_rng := 1,
                 pipeline_calls := [(p, 2, None)],
                 subprocess_calls := [[''cjpeg'', ''-quality'', ''85'', ''-progressive'', ''-outfile'',
                                       ''/tmp/tmp.jpg'', ''/tmp/tmp.bmp'']]\<rparr>)"
  by (simp add: stub_eval)

lemma stub_run_no_encoder:
  "api_generate_image stub_env_no_encoder \<lparr>request_prompt = p, request_seed = None\<rparr> stub_ready =
     (Inl (HTTPException 500 (Formatted ''Image generation failed: '' (FileNotFoundError ''cjpeg''))),
      stub_ready\<lparr>fs := [''/tmp/tmp.bmp'' \<mapsto> [66, 77, 0], ''/tmp/tmp.jpg'' \<mapsto> []],
                 torch_rng := 1,
                 pipeline_calls := [(p, 2, None)],
                 subprocess_calls := [[''cjpeg'', ''-quality'', ''85'', ''-progressive'', ''-outfile'',
                                       ''/tmp/tmp.jpg'', ''/tmp/tmp.bmp'']]\<rparr>)"
  by (simp add: stub_eval)

lemma stub_startup: "lifetime_startup stub_env initial_world = (Inr (), stub_ready)"
  by (simp add: lifetime_startup_def stub_env_def stub_ready_def initial_world_def raise_or_def Let_def)

lemma stub_startup_no_encoder: "lifetime_startup stub_env_no_encoder initial_world = (Inr (), stub_ready)"
  by (simp add: lifetime_startup_def stub_env_no_encoder_def stub_env_def stub_ready_def initial_world_def raise_or_def Let_def)

lemma and_then_read_file_snd: "snd (and_then m (\<lambda>_. read_file name)) = snd m"
  by (cases m) (auto simp: and_then_def read_file_frame split: sum.splits)

lemma stub_steps:
  assumes "e = stub_env \<or> e = stub_env_encoder_fails \<or> e = stub_env_no_encoder"
  shows "ml_models stub_ready ''sana_sprint'' = Some (PipelineObj (Pipeline ''./sana-local''))"
    and "truthy (Some (PipelineObj (Pipeline ''./sana-local'')))"
    and "generate_image e (PipelineObj (Pipeline ''./sana-local'')) (ml_models stub_ready ''device'')
           (request_prompt stub_request) (request_seed stub_request) stub_ready
         = (Inr (stub_cropped 0), stub_generated)"
    and "named_temporary_file e ''.bmp'' stub_generated
         = (Inr ''/tmp/tmp.bmp'', stub_generated\<lparr>fs := [''/tmp/tmp.bmp'' \<mapsto> []]\<rparr>)"
    and "image_save e (stub_cropped 0) ''/tmp/tmp.bmp'' (stub_generated\<lparr>fs := [''/tmp/tmp.bmp'' \<mapsto> []]\<rparr>)
         = (Inr (), stub_generated\<lparr>fs := [''/tmp/tmp.bmp'' \<mapsto> [66, 77, 0]]\<rparr>)"
    and "named_temporary_file e ''.jpg'' (stub_generated\<lparr>fs := [''/tmp/tmp.bmp'' \<mapsto> [66, 77, 0]]\<rparr>)
         = (Inr ''/tmp/tmp.jpg'',
            stub_generated\<lparr>fs := [''/tmp/tmp.bmp'' \<mapsto> [66, 77, 0], ''/tmp/tmp.jpg'' \<mapsto> []]\<rparr>)"
  using assms by (auto simp: stub_eval stub_request_def stub_generated_def)

lemma stub_files:
  "fs (stub_generated\<lparr>fs := [''/tmp/tmp.bmp'' \<mapsto> [66, 77, 0], ''/tmp/tmp.jpg'' \<mapsto> []]\<rparr>)
     = [''/tmp/tmp.bmp'' \<mapsto> [66, 77, 0], ''/tmp/tmp.jpg'' \<mapsto> []]"
  "subprocess_calls stub_ready = []" "pipeline_calls stub_ready = []"
  "fs stub_ready ''/tmp/tmp.bmp'' = None" "fs stub_ready ''/tmp/tmp.jpg'' = None"
  by (simp_all add: stub_ready_def initial_world_def)

lemma stub_execvp:
  "execvp stub_env [''cjpeg'', ''-quality'', ''85'', ''-progressive'', ''-outfile'', ''/tmp/tmp.jpg'', ''/tmp/tmp.bmp'']
     [''/tmp/tmp.bmp'' \<mapsto> [66, 77, 0], ''/tmp/tmp.jpg'' \<mapsto> []]
   = Exited 0 [(''/tmp/tmp.jpg'', [255, 216, 66, 77, 0])]"
  "execvp stub_env_encoder_fails args files = Exited 1 []"
  "execvp stub_env_no_encoder args files = NotFound"
  by (simp_all add: stub_env_def stub_env_encoder_fails_def stub_env_no_encoder_def stub_cjpeg_def)

lemma encode_mozjpeg_calls:
  "\<exists>cs. subprocess_calls (snd (encode_mozjpeg env im w)) = subprocess_calls w @ cs
     \<and> (cs = [] \<or> (\<exists>out inp. cs =
           [[''cjpeg'', ''-quality'', ''85'', ''-progressive'', ''-outfile'', out, inp]]))"
proof -
  obtain r1 w1 where t1: "named_temporary_file env ''.bmp'' w = (r1, w1)" by (cases "named_temporary_file env ''.bmp'' w")
  have c1: "subprocess_calls w1 = subprocess_calls w"
    using named_temporary_file_frame(3)[of env "''.bmp''" w] t1 by simp
  show ?thesis
  proof (cases r1)
    case (Inl e)
    with t1 c1 show ?thesis by (simp add: encode_mozjpeg_def and_then_Inl)
  next
    case (Inr tmp_bmp)
    obtain r2 w2 where s: "image_save env im tmp_bmp w1 = (r2, w2)" by (cases "image_save env im tmp_bmp w1")
    have c2: "subprocess_calls w2 = subprocess_calls w"
      using image_save_frame(3)[of env im tmp_bmp w1] s c1 by simp
    show ?thesis
    proof (cases r2)
      case (Inl e)
      with t1 \<open>r1 = Inr tmp_bmp\<close> s c2 show ?thesis by (simp add: encode_mozjpeg_def and_then_Inl and_then_Inr)
    next
      case (Inr u)
      obtain r3 w3 where t2: "named_temporary_file env ''.jpg'' w2 = (r3, w3)"
        by (cases "named_temporary_file env ''.jpg'' w2")
      have c3: "subprocess_calls w3 = subprocess_calls w"
        using named_temporary_file_frame(3)[of env "''.jpg''" w2] t2 c2 by simp
      show ?thesis
      proof (cases r3)
        case (Inl e)
        with t1 \<open>r1 = Inr tmp_bmp\<close> s \<open>r2 = Inr u\<close> t2 c3 show ?thesis
          by (simp add: encode_mozjpeg_def and_then_Inl and_then_Inr)
      next
        case (Inr tmp_jpg)
        with t1 \<open>r1 = Inr tmp_bmp\<close> s \<open>r2 = Inr u\<close> t2
        have "encode_mozjpeg env im w =
           and_then (subprocess_run env
                 [''cjpeg'', ''-quality'', ''85'', ''-progressive'', ''-outfile'', tmp_jpg, tmp_bmp]
                 True w3) (\<lambda>_. read_file tmp_jpg)"
          by (simp add: encode_mozjpeg_def and_then_Inr)
        then show ?thesis
          by (simp add: and_then_read_file_snd subprocess_run_outcome(1) c3)
      qed
    qed
  qed
qed

lemma generate_image_fst:
  assumes "make_generator env device seed = Inr g"
  shows "fst (generate_image env (PipelineObj p) device prompt seed w) =
     raise_or (fst (pipeline_run env p prompt 2
                      (case g of None \<Rightarrow> torch_rng w | Some (Generator st) \<Rightarrow> st)))
       (\<lambda>images. raise_or (first_image images) center_crop)"
proof (cases g)
  case None
  obtain r g' where r: "pipeline_run env p prompt 2 (torch_rng w) = (r, g')"
    by (cases "pipeline_run env p prompt 2 (torch_rng w)")
  show ?thesis
    using assms None r
    by (simp add: generate_image_def and_then_def call_pipeline_def Let_def center_crop_def
        raise_or_def split: sum.splits)
next
  case (Some gen)
  obtain st where gen: "gen = Generator st" by (cases gen)
  obtain r g' where r: "pipeline_run env p prompt 2 st = (r, g')"
    by (cases "pipeline_run env p prompt 2 st")
  show ?thesis
    using assms Some gen r
    by (simp add: generate_image_def and_then_def call_pipeline_def Let_def center_crop_def
        raise_or_def split: sum.splits)
qed

lemma api_generate_image_failed:
  assumes "ml_models w ''sana_sprint'' = Some pl" "truthy (Some pl)"
    and "generate_image env pl (ml_models w ''device'') (request_prompt request) (request_seed request) w
           = (Inl e, w0)"
  shows "api_generate_image env request w =
     (Inl (HTTPException 500 (Formatted ''Image generation failed: '' e)), w0)"
  using assms by (simp add: api_generate_image_def and_then_Inl)

lemma encode_mozjpeg_success:
  assumes "named_temporary_file env ''.bmp'' w = (Inr tmp_bmp, w1)"
    and "image_save env im tmp_bmp w1 = (Inr (), w2)"
    and "named_temporary_file env ''.jpg'' w2 = (Inr tmp_jpg, w3)"
    and "execvp env [''cjpeg'', ''-quality'', ''85'', ''-progressive'', ''-outfile'', tmp_jpg, tmp_bmp]
           (fs w3) = Exited 0 ws"
  shows "subprocess_calls (snd (encode_mozjpeg env im w)) =
           subprocess_calls w @
             [[''cjpeg'', ''-quality'', ''85'', ''-progressive'', ''-outfile'', tmp_jpg, tmp_bmp]]
    \<and> (\<exists>img_data. fold (\<lambda>(p, d) m. m(p \<mapsto> d)) ws (fs w3) tmp_jpg = Some img_data
          \<and> fst (encode_mozjpeg env im w) = Inr img_data)"
proof -
  let ?args = "[''cjpeg'', ''-quality'', ''85'', ''-progressive'', ''-outfile'', tmp_jpg, tmp_bmp]"
  let ?run = "subprocess_run env ?args True w3"
  let ?enc = "and_then ?run (\<lambda>_. read_file tmp_jpg)"
  note files = encode_files[OF assms(1-3)]
  have enc: "encode_mozjpeg env im w = ?enc" by (rule encode_mozjpeg_run[OF assms(1-3)])
  have calls: "subprocess_calls (snd (encode_mozjpeg env im w)) = subprocess_calls w @ [?args]"
    unfolding enc by (simp add: and_then_read_file_snd subprocess_run_outcome(1) files(6))
  from subprocess_run_outcome(4)[OF assms(4)] have r: "fst ?run = Inr 0"
    "fs (snd ?run) = fold (\<lambda>(p, d) m. m(p \<mapsto> d)) ws (fs w3)" by auto
  from files(4) have "fs w3 tmp_jpg \<noteq> None" by simp
  from fold_writes_keeps[of "fs w3" tmp_jpg ws, OF this] obtain img_data where
    d: "fold (\<lambda>(p, d) m. m(p \<mapsto> d)) ws (fs w3) tmp_jpg = Some img_data" by blast
  from r(1) have "?enc = read_file tmp_jpg (snd ?run)" by (rule and_then_fst_Inr)
  also have "\<dots> = (Inr img_data, snd ?run)" using d r(2) by (simp add: read_file_def)
  finally have "fst (encode_mozjpeg env im w) = Inr img_data" unfolding enc by simp
  with calls d show ?thesis by blast
qed

lemma encode_mozjpeg_bmp_remains:
  assumes "named_temporary_file env ''.bmp'' w = (Inr tmp_bmp, w1)"
  shows "fs (snd (encode_mozjpeg env im w)) tmp_bmp \<noteq> None"
proof -
  let ?rest = "and_then (image_save env im tmp_bmp w1) (\<lambda>_ w.
     and_then (named_temporary_file env ''.jpg'' w) (\<lambda>tmp_jpg w.
     and_then (subprocess_run env
                 [''cjpeg'', ''-quality'', ''85'', ''-progressive'', ''-outfile'', tmp_jpg, tmp_bmp]
                 True w) (\<lambda>_ w.
     read_file tmp_jpg w)))"
  have eq: "encode_mozjpeg env im w = ?rest"
    using assms by (simp add: encode_mozjpeg_def and_then_Inr)
  have "fs w1 tmp_bmp \<noteq> None \<longrightarrow> fs (snd ?rest) tmp_bmp \<noteq> None"
    by (intro and_then_rel[where R = "\<lambda>a b. fs a tmp_bmp \<noteq> None \<longrightarrow> fs b tmp_bmp \<noteq> None"])
       (simp_all add: named_temporary_file_keeps image_save_keeps subprocess_run_keeps read_file_keeps)
  moreover have "fs w1 tmp_bmp \<noteq> None"
    using named_temporary_file_Inr(2)[OF assms] by simp
  ultimately show ?thesis unfolding eq by simp
qed

section \<open>The temporary files of the encode step\<close>

text \<open>
  C1, as the code has it. In a request that reaches the encode step (the model is loaded
  and \<^verbatim>\<open>generate_image\<close> returned an image), each of the two temporary files, once it
  is created, exists when the request completes, on every exit path: the BMP file
  whatever happens after its creation, and the JPEG file whatever the encoder does, exit
  with status zero, exit with a non-zero status, not be found, or fail to launch. Neither
  file existed
  before the request. They are created with \<^verbatim>\<open>delete=False\<close> and nothing in
  \<^verbatim>\<open>main.py\<close> removes them; the encoder is taken to write files only.
\<close>

theorem temporary_files_remain:
  assumes "ml_models w ''sana_sprint'' = Some pl" and "truthy (Some pl)"
    and "generate_image env pl (ml_models w ''device'') (request_prompt request) (request_seed request) w
           = (Inr pil_image, w0)"
    and "named_temporary_file env ''.bmp'' w0 = (Inr tmp_bmp, w1)"
  shows "fs w tmp_bmp = None
    \<and> fs (snd (api_generate_image env request w)) tmp_bmp \<noteq> None
    \<and> (\<forall>w2 tmp_jpg w3.
          image_save env pil_image tmp_bmp w1 = (Inr (), w2) \<longrightarrow>
          named_temporary_file env ''.jpg'' w2 = (Inr tmp_jpg, w3) \<longrightarrow>
            fs w tmp_jpg = None \<and> fs (snd (api_generate_image env request w)) tmp_jpg \<noteq> None)"
proof -
  have w0: "fs w0 = fs w" using generate_image_frame(2)[of env pl _ _ _ w] assms(3) by (metis snd_conv)
  have snd_eq: "snd (api_generate_image env request w) = snd (encode_mozjpeg env pil_image w0)"
    unfolding api_generate_image_run[OF assms(1-3)] by (simp split: prod.splits sum.splits)
  have bmp_new: "fs w tmp_bmp = None"
    using named_temporary_file_Inr(1)[OF assms(4)] w0 by simp
  have bmp: "fs (snd (api_generate_image env request w)) tmp_bmp \<noteq> None"
    unfolding snd_eq by (rule encode_mozjpeg_bmp_remains[OF assms(4)])
  have jpg: "fs w tmp_jpg = None \<and> fs (snd (api_generate_image env request w)) tmp_jpg \<noteq> None"
    if s: "image_save env pil_image tmp_bmp w1 = (Inr (), w2)"
      and t2: "named_temporary_file env ''.jpg'' w2 = (Inr tmp_jpg, w3)" for w2 tmp_jpg w3
  proof -
    let ?args = "[''cjpeg'', ''-quality'', ''85'', ''-progressive'', ''-outfile'', tmp_jpg, tmp_bmp]"
    note files = encode_files[OF assms(4) s t2]
    have run: "snd (encode_mozjpeg env pil_image w0) =
        snd (and_then (subprocess_run env ?args True w3) (\<lambda>_. read_file tmp_jpg))"
      by (simp only: encode_mozjpeg_run[OF assms(4) s t2])
    have keep: "fs w3 tmp_jpg \<noteq> None \<longrightarrow>
        fs (snd (and_then (subprocess_run env ?args True w3) (\<lambda>_. read_file tmp_jpg))) tmp_jpg \<noteq> None"
      by (rule and_then_rel[where R = "\<lambda>a b. fs a tmp_jpg \<noteq> None \<longrightarrow> fs b tmp_jpg \<noteq> None"])
         (simp_all add: subprocess_run_keeps read_file_keeps)
    from files(4) have "fs w3 tmp_jpg \<noteq> None" by simp
    with keep files(2) w0 show ?thesis unfolding snd_eq run by simp
  qed
  from bmp_new bmp jpg show ?thesis by blast
qed

text \<open>
  An instance: the stub whose encoder exits with status 1.
\<close>

theorem temporary_files_remain_witness:
  "fs stub_ready ''/tmp/tmp.bmp'' = None \<and> fs stub_ready ''/tmp/tmp.jpg'' = None
   \<and> fs (snd (api_generate_image stub_env_encoder_fails stub_request stub_ready)) ''/tmp/tmp.bmp'' \<noteq> None
   \<and> fs (snd (api_generate_image stub_env_encoder_fails stub_request stub_ready)) ''/tmp/tmp.jpg'' \<noteq> None"
proof -
  have e: "stub_env_encoder_fails = stub_env \<or> stub_env_encoder_fails = stub_env_encoder_fails
    \<or> stub_env_encoder_fails = stub_env_no_encoder" by simp
  note s = stub_steps[OF e]
  from temporary_files_remain[OF s(1-4)] s(5,6) show ?thesis by blast
qed

text \<open>
  C1 as stated fails. With the stub environment the request succeeds, and both temporary
  files are still there afterwards, with their contents; with an encoder that exits with
  status 1 the request fails with status 500, and both files are still there as well.
\<close>

theorem temporary_files_removed_counterexample:
  "fst (api_generate_image stub_env \<lparr>request_prompt = ''a cat'', request_seed = None\<rparr> stub_ready)
     = Inr \<lparr>content = [255, 216, 66, 77, 0], media_type = ''image/jpeg''\<rparr>
   \<and> fs (snd (api_generate_image stub_env \<lparr>request_prompt = ''a cat'', request_seed = None\<rparr> stub_ready))
        ''/tmp/tmp.bmp'' = Some [66, 77, 0]
   \<and> fs (snd (api_generate_image stub_env \<lparr>request_prompt = ''a cat'', request_seed = None\<rparr> stub_ready))
        ''/tmp/tmp.jpg'' = Some [255, 216, 66, 77, 0]
   \<and> fst (api_generate_image stub_env_encoder_fails \<lparr>request_prompt = ''a cat'', request_seed = None\<rparr> stub_ready)
     = Inl (HTTPException 500 (Formatted ''Image generation failed: ''
        (CalledProcessError 1 [''cjpeg'', ''-quality'', ''85'', ''-progressive'', ''-outfile'',
                               ''/tmp/tmp.jpg'', ''/tmp/tmp.bmp''])))
   \<and> fs (snd (api_generate_image stub_env_encoder_fails \<lparr>request_prompt = ''a cat'', request_seed = None\<rparr> stub_ready))
        ''/tmp/tmp.bmp'' = Some [66, 77, 0]
   \<and> fs (snd (api_generate_image stub_env_encoder_fails \<lparr>request_prompt = ''a cat'', request_seed = None\<rparr> stub_ready))
        ''/tmp/tmp.jpg'' = Some []"
  by (simp add: stub_run stub_run_encoder_fails)

section \<open>Seeds and reproducibility\<close>

text \<open>
  C2 at seed 0. Two runs of \<^verbatim>\<open>generate_image\<close>, one after the other, with the same
  pipeline, device, prompt and the seed 0, on the stub pipeline (whose image shows the
  state of the random generator that drove it): the pipeline is called with no generator,
  draws from torch's global generator, and the two raw outputs differ. Line 64 tests the
  truth value of \<^verbatim>\<open>seed\<close>, which is false for 0, where the claim needs
  \<^verbatim>\<open>seed is not None\<close>.
\<close>

theorem seed_zero_not_reproducible:
  "fst (generate_image stub_env (PipelineObj (Pipeline ''./sana-local'')) (Some (StrObj ''cpu''))
          ''a cat'' (Some 0) stub_ready) = Inr (stub_cropped 0)
   \<and> fst (generate_image stub_env (PipelineObj (Pipeline ''./sana-local'')) (Some (StrObj ''cpu''))
          ''a cat'' (Some 0)
          (snd (generate_image stub_env (PipelineObj (Pipeline ''./sana-local''))
                  (Some (StrObj ''cpu'')) ''a cat'' (Some 0) stub_ready))) = Inr (stub_cropped 1)
   \<and> img_pixel (stub_cropped 0) 0 0 \<noteq> img_pixel (stub_cropped 1) 0 0
   \<and> pipeline_calls (snd (generate_image stub_env (PipelineObj (Pipeline ''./sana-local''))
          (Some (StrObj ''cpu'')) ''a cat'' (Some 0) stub_ready)) = [(''a cat'', 2, None)]"
  by (simp add: stub_generate_image_unseeded stub_cropped_pixel stub_files stub_ready_def initial_world_def)

text \<open>
  For every seed other than 0, with any pipeline and any collaborators, the result of
  \<^verbatim>\<open>generate_image\<close> does not depend on the state it runs in: the generator made from
  the seed, and nothing else, drives the pipeline.
\<close>

theorem generate_image_seeded_reproducible:
  assumes "s \<noteq> 0"
  shows "fst (generate_image env pl device prompt (Some s) w)
       = fst (generate_image env pl device prompt (Some s) w')"
  using assms
  by (auto simp: generate_image_def make_generator_def call_pipeline_def and_then_def raise_or_def Let_def
      split: sum.splits ml_value.splits generator.splits prod.splits)

text \<open>
  An instance: seed 5, in the state after start and in the state after another run.
\<close>

theorem generate_image_seeded_reproducible_witness:
  "(5::int) \<noteq> 0
   \<and> fst (generate_image stub_env (PipelineObj (Pipeline ''./sana-local'')) (Some (StrObj ''cpu''))
          ''a cat'' (Some 5) stub_ready)
     = fst (generate_image stub_env (PipelineObj (Pipeline ''./sana-local'')) (Some (StrObj ''cpu''))
          ''a cat'' (Some 5) stub_generated)"
proof -
  have h: "(5::int) \<noteq> 0" by simp
  from generate_image_seeded_reproducible[OF h] h show ?thesis by blast
qed

section \<open>Empty prompts\<close>

text \<open>
  C3, as the code has it. \<^verbatim>\<open>GenerationRequest\<close> declares \<^verbatim>\<open>prompt: str\<close> with no
  constraint, and neither \<^verbatim>\<open>api_generate_image\<close> nor \<^verbatim>\<open>generate_image\<close> looks at the
  prompt. A request whose prompt is the empty text is not rejected; it is handled as any
  other. When the model is loaded and the generator for the seed is made without an
  exception:
  \<^item> the pipeline is called exactly once, with the empty prompt and 2 steps;
  \<^item> what \<^verbatim>\<open>generate_image\<close> returns is the centre crop of the first image of that run of
    the pipeline (or the exception raised on the way);
  \<^item> an exception of \<^verbatim>\<open>generate_image\<close> is answered with status 500 and the detail
    \<^verbatim>\<open>f"Image generation failed: {e}"\<close>, and an image goes to the encode step, whose
    outcome is the reply: its bytes as an \<^verbatim>\<open>image/jpeg\<close> response, or its exception with
    status 500;
  \<^item> when the image is generated, both temporary files are created, the image is saved
    and the encoder exits with status 0, the encoder was launched on the two files and
    the reply is the content of the JPEG file: the request succeeds.
\<close>

theorem empty_prompt_reaches_model:
  assumes "ml_models w ''sana_sprint'' = Some (PipelineObj p)"
    and "request_prompt request = ''''"
    and "make_generator env (ml_models w ''device'') (request_seed request) = Inr g"
  shows "pipeline_calls (snd (api_generate_image env request w)) = pipeline_calls w @ [('''', 2, g)]
    \<and> fst (generate_image env (PipelineObj p) (ml_models w ''device'') '''' (request_seed request) w) =
        raise_or (fst (pipeline_run env p '''' 2
                         (case g of None \<Rightarrow> torch_rng w | Some (Generator st) \<Rightarrow> st)))
          (\<lambda>images. raise_or (first_image images) center_crop)
    \<and> (\<forall>e w0.
          generate_image env (PipelineObj p) (ml_models w ''device'') '''' (request_seed request) w
            = (Inl e, w0) \<longrightarrow>
          api_generate_image env request w =
            (Inl (HTTPException 500 (Formatted ''Image generation failed: '' e)), w0))
    \<and> (\<forall>pil_image w0.
          generate_image env (PipelineObj p) (ml_models w ''device'') '''' (request_seed request) w
            = (Inr pil_image, w0) \<longrightarrow>
          api_generate_image env request w =
            (case encode_mozjpeg env pil_image w0 of
               (Inl e, w') \<Rightarrow> (Inl (HTTPException 500 (Formatted ''Image generation failed: '' e)), w')
             | (Inr img_data, w') \<Rightarrow> (Inr \<lparr>content = img_data, media_type = ''image/jpeg''\<rparr>, w')))
    \<and> (\<forall>pil_image w0 tmp_bmp w1 w2 tmp_jpg w3 ws.
          generate_image env (PipelineObj p) (ml_models w ''device'') '''' (request_seed request) w
            = (Inr pil_image, w0) \<longrightarrow>
          named_temporary_file env ''.bmp'' w0 = (Inr tmp_bmp, w1) \<longrightarrow>
          image_save env pil_image tmp_bmp w1 = (Inr (), w2) \<longrightarrow>
          named_temporary_file env ''.jpg'' w2 = (Inr tmp_jpg, w3) \<longrightarrow>
          execvp env [''cjpeg'', ''-quality'', ''85'', ''-progressive'', ''-outfile'', tmp_jpg, tmp_bmp]
            (fs w3) = Exited 0 ws \<longrightarrow>
            subprocess_calls (snd (api_generate_image env request w)) =
              subprocess_calls w @
                [[''cjpeg'', ''-quality'', ''85'', ''-progressive'', ''-outfile'', tmp_jpg, tmp_bmp]]
            \<and> (\<exists>img_data. fold (\<lambda>(p, d) m. m(p \<mapsto> d)) ws (fs w3) tmp_jpg = Some img_data
                 \<and> fst (api_generate_image env request w) =
                     Inr \<lparr>content = img_data, media_type = ''image/jpeg''\<rparr>))"
proof -
  let ?gen = "generate_image env (PipelineObj p) (ml_models w ''device'') '''' (request_seed request) w"
  have t: "truthy (Some (PipelineObj p))" by (simp add: truthy_def)
  have gen_eq: "generate_image env (PipelineObj p) (ml_models w ''device'') (request_prompt request)
      (request_seed request) w = ?gen" by (simp only: assms(2))
  have 1: "pipeline_calls (snd (api_generate_image env request w)) = pipeline_calls w @ [('''', 2, g)]"
    using assms by (simp add: api_generate_image_calls truthy_def)
  have 2: "fst ?gen =
        raise_or (fst (pipeline_run env p '''' 2
                         (case g of None \<Rightarrow> torch_rng w | Some (Generator st) \<Rightarrow> st)))
          (\<lambda>images. raise_or (first_image images) center_crop)"
    by (rule generate_image_fst[OF assms(3)])
  have 3: "api_generate_image env request w =
            (Inl (HTTPException 500 (Formatted ''Image generation failed: '' e)), w0)"
    if "?gen = (Inl e, w0)" for e w0
    using api_generate_image_failed[OF assms(1) t] that gen_eq by simp
  have 4: "api_generate_image env request w =
            (case encode_mozjpeg env pil_image w0 of
               (Inl e, w') \<Rightarrow> (Inl (HTTPException 500 (Formatted ''Image generation failed: '' e)), w')
             | (Inr img_data, w') \<Rightarrow> (Inr \<lparr>content = img_data, media_type = ''image/jpeg''\<rparr>, w'))"
    if "?gen = (Inr pil_image, w0)" for pil_image w0
    using api_generate_image_run[OF assms(1) t] that gen_eq by simp
  have 5: "subprocess_calls (snd (api_generate_image env request w)) =
              subprocess_calls w @
                [[''cjpeg'', ''-quality'', ''85'', ''-progressive'', ''-outfile'', tmp_jpg, tmp_bmp]]
            \<and> (\<exists>img_data. fold (\<lambda>(p, d) m. m(p \<mapsto> d)) ws (fs w3) tmp_jpg = Some img_data
                 \<and> fst (api_generate_image env request w) =
                     Inr \<lparr>content = img_data, media_type = ''image/jpeg''\<rparr>)"
    if g: "?gen = (Inr pil_image, w0)"
      and t1: "named_temporary_file env ''.bmp'' w0 = (Inr tmp_bmp, w1)"
      and sv: "image_save env pil_image tmp_bmp w1 = (Inr (), w2)"
      and t2: "named_temporary_file env ''.jpg'' w2 = (Inr tmp_jpg, w3)"
      and ex: "execvp env [''cjpeg'', ''-quality'', ''85'', ''-progressive'', ''-outfile'', tmp_jpg, tmp_bmp]
            (fs w3) = Exited 0 ws"
    for pil_image w0 tmp_bmp w1 w2 tmp_jpg w3 ws
  proof -
    have w0: "subprocess_calls w0 = subprocess_calls w"
      using generate_image_frame(3)[of env "PipelineObj p" "ml_models w ''device''" "''''"
          "request_seed request" w] g by simp
    from encode_mozjpeg_success[OF t1 sv t2 ex] obtain img_data where
      e: "subprocess_calls (snd (encode_mozjpeg env pil_image w0)) =
           subprocess_calls w0 @
             [[''cjpeg'', ''-quality'', ''85'', ''-progressive'', ''-outfile'', tmp_jpg, tmp_bmp]]"
        "fold (\<lambda>(p, d) m. m(p \<mapsto> d)) ws (fs w3) tmp_jpg = Some img_data"
        "fst (encode_mozjpeg env pil_image w0) = Inr img_data" by blast
    obtain w' where enc: "encode_mozjpeg env pil_image w0 = (Inr img_data, w')"
      using e(3) by (cases "encode_mozjpeg env pil_image w0") simp
    have "api_generate_image env request w =
        (Inr \<lparr>content = img_data, media_type = ''image/jpeg''\<rparr>, w')"
      using 4[OF g] enc by simp
    with e enc w0 show ?thesis by simp
  qed
  from 1 2 3 4 5 show ?thesis by blast
qed

text \<open>
  An instance: the empty prompt with seed 7 on the stub. The pipeline is called with the
  empty prompt, the encoder is launched, and the reply is the JPEG of the image that the
  generator seeded with 7 gave.
\<close>

theorem empty_prompt_reaches_model_witness:
  "pipeline_calls (snd (api_generate_image stub_env \<lparr>request_prompt = '''', request_seed = Some 7\<rparr> stub_ready))
     = [('''', 2, Some (Generator 7))]
   \<and> subprocess_calls (snd (api_generate_image stub_env
         \<lparr>request_prompt = '''', request_seed = Some 7\<rparr> stub_ready)) =
        [[''cjpeg'', ''-quality'', ''85'', ''-progressive'', ''-outfile'', ''/tmp/tmp.jpg'', ''/tmp/tmp.bmp'']]
   \<and> fst (api_generate_image stub_env \<lparr>request_prompt = '''', request_seed = Some 7\<rparr> stub_ready)
       = Inr \<lparr>content = [255, 216, 66, 77, 7], media_type = ''image/jpeg''\<rparr>"
proof -
  let ?request = "\<lparr>request_prompt = '''', request_seed = Some 7\<rparr>"
  let ?w0 = "stub_ready\<lparr>pipeline_calls := [('''', 2, Some (Generator 7))]\<rparr>"
  let ?w3 = "?w0\<lparr>fs := [''/tmp/tmp.bmp'' \<mapsto> [66, 77, 7], ''/tmp/tmp.jpg'' \<mapsto> []]\<rparr>"
  have 1: "ml_models stub_ready ''sana_sprint'' = Some (PipelineObj (Pipeline ''./sana-local''))"
    by (simp add: stub_ready_def)
  have 2: "request_prompt ?request = ''''" by simp
  have 3: "make_generator stub_env (ml_models stub_ready ''device'') (request_seed ?request)
             = Inr (Some (Generator 7))"
    by (simp add: make_generator_def stub_env_def raise_or_def)
  have g: "generate_image stub_env (PipelineObj (Pipeline ''./sana-local'')) (ml_models stub_ready ''device'')
             '''' (request_seed ?request) stub_ready = (Inr (stub_cropped 7), ?w0)"
    by (simp add: stub_eval)
  have t1: "named_temporary_file stub_env ''.bmp'' ?w0
             = (Inr ''/tmp/tmp.bmp'', ?w0\<lparr>fs := [''/tmp/tmp.bmp'' \<mapsto> []]\<rparr>)"
    by (simp add: stub_eval)
  have sv: "image_save stub_env (stub_cropped 7) ''/tmp/tmp.bmp'' (?w0\<lparr>fs := [''/tmp/tmp.bmp'' \<mapsto> []]\<rparr>)
             = (Inr (), ?w0\<lparr>fs := [''/tmp/tmp.bmp'' \<mapsto> [66, 77, 7]]\<rparr>)"
    by (simp add: stub_eval)
  have t2: "named_temporary_file stub_env ''.jpg'' (?w0\<lparr>fs := [''/tmp/tmp.bmp'' \<mapsto> [66, 77, 7]]\<rparr>)
             = (Inr ''/tmp/tmp.jpg'', ?w3)"
    by (simp add: stub_eval)
  have ex: "execvp stub_env
             [''cjpeg'', ''-quality'', ''85'', ''-progressive'', ''-outfile'', ''/tmp/tmp.jpg'', ''/tmp/tmp.bmp'']
             (fs ?w3) = Exited 0 [(''/tmp/tmp.jpg'', [255, 216, 66, 77, 7])]"
    by (simp add: stub_env_def stub_cjpeg_def)
  note t = empty_prompt_reaches_model[OF 1 2 3]
  from t have a: "pipeline_calls (snd (api_generate_image stub_env ?request stub_ready))
     = [('''', 2, Some (Generator 7))]" by (simp add: stub_files)
  from t g t1 sv t2 ex have
    "subprocess_calls (snd (api_generate_image stub_env ?request stub_ready)) =
       subprocess_calls stub_ready @
        [[''cjpeg'', ''-quality'', ''85'', ''-progressive'', ''-outfile'', ''/tmp/tmp.jpg'', ''/tmp/tmp.bmp'']]
     \<and> (\<exists>img_data. fold (\<lambda>(p, d) m. m(p \<mapsto> d)) [(''/tmp/tmp.jpg'', [255, 216, 66, 77, 7])]
            (fs ?w3) ''/tmp/tmp.jpg'' = Some img_data
          \<and> fst (api_generate_image stub_env ?request stub_ready) =
              Inr \<lparr>content = img_data, media_type = ''image/jpeg''\<rparr>)"
    by blast
  then have b: "subprocess_calls (snd (api_generate_image stub_env ?request stub_ready)) =
        [[''cjpeg'', ''-quality'', ''85'', ''-progressive'', ''-outfile'', ''/tmp/tmp.jpg'', ''/tmp/tmp.bmp'']]
     \<and> fst (api_generate_image stub_env ?request stub_ready)
       = Inr \<lparr>content = [255, 216, 66, 77, 7], media_type = ''image/jpeg''\<rparr>"
    by (auto simp: stub_files)
  from a b show ?thesis by blast
qed

text \<open>
  C3 as stated fails. With the stub environment a request with the empty prompt is not
  rejected: the pipeline is called once with the empty prompt, the encoder is launched,
  and the response is the JPEG.
\<close>

theorem empty_prompt_rejected_counterexample:
  "request_prompt \<lparr>request_prompt = '''', request_seed = None\<rparr> = ''''
   \<and> fst (api_generate_image stub_env \<lparr>request_prompt = '''', request_seed = None\<rparr> stub_ready)
       = Inr \<lparr>content = [255, 216, 66, 77, 0], media_type = ''image/jpeg''\<rparr>
   \<and> pipeline_calls (snd (api_generate_image stub_env
         \<lparr>request_prompt = '''', request_seed = None\<rparr> stub_ready)) = [('''', 2, None)]
   \<and> subprocess_calls (snd (api_generate_image stub_env
         \<lparr>request_prompt = '''', request_seed = None\<rparr> stub_ready)) =
        [[''cjpeg'', ''-quality'', ''85'', ''-progressive'', ''-outfile'', ''/tmp/tmp.jpg'', ''/tmp/tmp.bmp'']]"
  by (simp add: stub_run)

section \<open>The centre crop is a centred 2:3 rectangle inside the image\<close>

text \<open>
  C4. For every image of width and height at least 1 (PIL keeps both in a C int, hence
  below \<open>2 ^ 31\<close>), the crop box \<open>(l, t, r, b)\<close> that \<^verbatim>\<open>generate_image\<close> computes is
  computed without an exception and lies inside the image: \<open>0 \<le> l \<le> r \<le> width\<close> and
  \<open>0 \<le> t \<le> b \<le> height\<close>, so it is no larger than the image in either dimension. Its
  width \<open>r - l\<close> and height \<open>b - t\<close> are in the ratio 2:3 up to the rounding of one of them
  to a whole pixel: \<open>\<bar>3 * (r - l) - 2 * (b - t)\<bar> \<le> 2\<close>, that is, the width is within 2/3 of
  a pixel of two thirds of the height. Its centre \<open>((l + r) / 2, (t + b) / 2)\<close> is within
  half a pixel of the centre \<open>(width / 2, height / 2)\<close> of the image.
\<close>

theorem crop_box_centered:
  assumes "1 \<le> width" "width < 2 ^ 31" "1 \<le> height" "height < 2 ^ 31"
  shows "\<exists>l t r b. crop_box width height = Inr (l, t, r, b)
    \<and> 0 \<le> l \<and> l \<le> r \<and> r \<le> width \<and> 0 \<le> t \<and> t \<le> b \<and> b \<le> height
    \<and> r - l \<le> width \<and> b - t \<le> height
    \<and> \<bar>3 * (r - l) - 2 * (b - t)\<bar> \<le> 2
    \<and> \<bar>l + r - width\<bar> \<le> 1 \<and> \<bar>t + b - height\<bar> \<le> 1"
proof -
  obtain l t r b where box: "crop_box_int width height = (l, t, r, b)"
    by (metis prod_cases4)
  from crop_box_int_props[OF assms(1) assms(3) box]
  have "0 \<le> l \<and> l \<le> r \<and> r \<le> width \<and> 0 \<le> t \<and> t \<le> b \<and> b \<le> height
    \<and> \<bar>3 * (r - l) - 2 * (b - t)\<bar> \<le> 2
    \<and> \<bar>l + r - width\<bar> \<le> 1 \<and> \<bar>t + b - height\<bar> \<le> 1" .
  moreover from this have "r - l \<le> width \<and> b - t \<le> height" by linarith
  moreover have "crop_box width height = Inr (l, t, r, b)"
    using crop_box_eq[OF assms] box by simp
  ultimately show ?thesis by blast
qed

theorem crop_box_centered_witness:
  "crop_box 1024 1024 = Inr (171, 0, 853, 1024)
   \<and> (\<exists>l t r b. crop_box 1024 1024 = Inr (l, t, r, b)
    \<and> 0 \<le> l \<and> l \<le> r \<and> r \<le> 1024 \<and> 0 \<le> t \<and> t \<le> b \<and> b \<le> 1024
    \<and> r - l \<le> 1024 \<and> b - t \<le> 1024
    \<and> \<bar>3 * (r - l) - 2 * (b - t)\<bar> \<le> 2
    \<and> \<bar>l + r - 1024\<bar> \<le> 1 \<and> \<bar>t + b - 1024\<bar> \<le> 1)"
proof -
  have "crop_box 1024 1024 = Inr (crop_box_int 1024 1024)"
    by (rule crop_box_eq) simp_all
  then have "crop_box 1024 1024 = Inr (171, 0, 853, 1024)"
    by (simp add: crop_box_int_def)
  moreover have "(1::int) \<le> 1024" "(1024::int) < 2 ^ 31" by simp_all
  note crop_box_centered[OF this this]
  ultimately show ?thesis by blast
qed

section \<open>A missing encoder\<close>

text \<open>
  C5, as the code has it. When \<^verbatim>\<open>cjpeg\<close> is not found at the moment a request launches
  it, after the image was generated and both temporary files were created, the request
  fails with status 500 and the detail \<^verbatim>\<open>f"Image generation failed: {e}"\<close> for the
  \<^verbatim>\<open>FileNotFoundError\<close>: the wrapping of every other exception of generation. Startup
  does not look for the encoder: the result of \<^verbatim>\<open>lifetime\<close> is the same whatever
  launching a program would do.
\<close>

theorem encoder_absent_surfaces_in_request:
  assumes "ml_models w ''sana_sprint'' = Some pl" and "truthy (Some pl)"
    and "generate_image env pl (ml_models w ''device'') (request_prompt request) (request_seed request) w
           = (Inr pil_image, w0)"
    and "named_temporary_file env ''.bmp'' w0 = (Inr tmp_bmp, w1)"
    and "image_save env pil_image tmp_bmp w1 = (Inr (), w2)"
    and "named_temporary_file env ''.jpg'' w2 = (Inr tmp_jpg, w3)"
    and "execvp env [''cjpeg'', ''-quality'', ''85'', ''-progressive'', ''-outfile'', tmp_jpg, tmp_bmp]
           (fs w3) = NotFound"
  shows "fst (api_generate_image env request w) =
           Inl (HTTPException 500 (Formatted ''Image generation failed: '' (FileNotFoundError ''cjpeg'')))
    \<and> lifetime_startup (env\<lparr>execvp := x\<rparr>) w' = lifetime_startup env w'"
proof -
  let ?args = "[''cjpeg'', ''-quality'', ''85'', ''-progressive'', ''-outfile'', tmp_jpg, tmp_bmp]"
  let ?run = "subprocess_run env ?args True w3"
  let ?enc = "and_then ?run (\<lambda>_. read_file tmp_jpg)"
  have enc: "encode_mozjpeg env pil_image w0 = ?enc" by (rule encode_mozjpeg_run[OF assms(4-6)])
  from subprocess_run_outcome(2)[OF assms(7)] have "fst ?run = Inl (FileNotFoundError ''cjpeg'')" .
  then have "?enc = (Inl (FileNotFoundError ''cjpeg''), snd ?run)" by (rule and_then_fst_Inl)
  then have "fst (api_generate_image env request w) =
           Inl (HTTPException 500 (Formatted ''Image generation failed: '' (FileNotFoundError ''cjpeg'')))"
    unfolding api_generate_image_run[OF assms(1-3)] enc by simp
  moreover have "lifetime_startup (env\<lparr>execvp := x\<rparr>) w' = lifetime_startup env w'"
    by (simp add: lifetime_startup_def)
  ultimately show ?thesis by blast
qed

text \<open>
  An instance: the stub with no \<^verbatim>\<open>cjpeg\<close> on the path.
\<close>

theorem encoder_absent_witness:
  "fst (api_generate_image stub_env_no_encoder stub_request stub_ready) =
     Inl (HTTPException 500 (Formatted ''Image generation failed: '' (FileNotFoundError ''cjpeg'')))
   \<and> lifetime_startup (stub_env_no_encoder\<lparr>execvp := stub_cjpeg\<rparr>) initial_world
       = lifetime_startup stub_env_no_encoder initial_world"
proof -
  have e: "stub_env_no_encoder = stub_env \<or> stub_env_no_encoder = stub_env_encoder_fails
    \<or> stub_env_no_encoder = stub_env_no_encoder" by simp
  from encoder_absent_surfaces_in_request[OF stub_steps[OF e] stub_execvp(3),
      of stub_cjpeg initial_world]
  show ?thesis .
qed

text \<open>
  C5 as stated fails. With no \<^verbatim>\<open>cjpeg\<close> on the path, startup succeeds and the health
  check reports the model as loaded; the first request calls the pipeline and creates both
  temporary files, and only then fails, with the generic status 500 of a failed generation.
\<close>

theorem encoder_unavailable_counterexample:
  "lifetime_startup stub_env_no_encoder initial_world = (Inr (), stub_ready)
   \<and> model_loaded (health_check stub_ready)
   \<and> fst (api_generate_image stub_env_no_encoder \<lparr>request_prompt = ''a cat'', request_seed = None\<rparr> stub_ready)
       = Inl (HTTPException 500 (Formatted ''Image generation failed: '' (FileNotFoundError ''cjpeg'')))
   \<and> pipeline_calls (snd (api_generate_image stub_env_no_encoder
         \<lparr>request_prompt = ''a cat'', request_seed = None\<rparr> stub_ready)) = [(''a cat'', 2, None)]
   \<and> fs (snd (api_generate_image stub_env_no_encoder
         \<lparr>request_prompt = ''a cat'', request_seed = None\<rparr> stub_ready)) ''/tmp/tmp.bmp'' = Some [66, 77, 0]
   \<and> fs (snd (api_generate_image stub_env_no_encoder
         \<lparr>request_prompt = ''a cat'', request_seed = None\<rparr> stub_ready)) ''/tmp/tmp.jpg'' = Some []"
proof -
  have "model_loaded (health_check stub_ready)"
    by (simp add: health_check_def stub_ready_def)
  then show ?thesis by (simp add: stub_run_no_encoder stub_startup_no_encoder)
qed

section \<open>Requests while the model is not loaded\<close>

text \<open>
  C6. When \<^verbatim>\<open>ml_models\<close> has no entry \<^verbatim>\<open>"sana_sprint"\<close>, \<^verbatim>\<open>POST /generate\<close> raises
  \<^verbatim>\<open>HTTPException\<close> with status 500 and the detail
  \<^verbatim>\<open>Image generation model not available\<close>, and leaves the state as it was: the pipeline
  is not called, no program is launched and no file is created.
\<close>

theorem model_unavailable:
  assumes "ml_models w ''sana_sprint'' = None"
  shows "api_generate_image env request w =
           (Inl (HTTPException 500 (Literal ''Image generation model not available'')), w)
    \<and> pipeline_calls (snd (api_generate_image env request w)) = pipeline_calls w
    \<and> subprocess_calls (snd (api_generate_image env request w)) = subprocess_calls w
    \<and> fs (snd (api_generate_image env request w)) = fs w"
  using assms by (simp add: api_generate_image_def)

text \<open>
  An instance: a request in the initial state.
\<close>

theorem model_unavailable_witness:
  "ml_models initial_world ''sana_sprint'' = None
   \<and> api_generate_image stub_env \<lparr>request_prompt = ''a cat'', request_seed = Some 7\<rparr> initial_world =
       (Inl (HTTPException 500 (Literal ''Image generation model not available'')), initial_world)"
proof -
  have h: "ml_models initial_world ''sana_sprint'' = None" by (simp add: initial_world_def)
  from model_unavailable[OF h] h show ?thesis by blast
qed

section \<open>Health and the lifespan\<close>

text \<open>
  C7. \<^verbatim>\<open>GET /health\<close> reports \<open>model_loaded\<close> as false in the initial state and after a
  failed start, as true after a successful start and after every sequence of requests
  served from there, and as false after shutdown. No request changes what it reports:
  neither endpoint changes \<^verbatim>\<open>ml_models\<close>.
\<close>

theorem health_tracks_lifespan:
  "\<not> model_loaded (health_check initial_world)
   \<and> (\<forall>e w'. lifetime_startup env w = (Inl e, w') \<longrightarrow> \<not> model_loaded (health_check w'))
   \<and> (\<forall>w'. lifetime_startup env w = (Inr (), w') \<longrightarrow>
         (\<forall>rs. model_loaded (health_check (serve env rs w'))))
   \<and> model_loaded (health_check (snd (handle env r w))) = model_loaded (health_check w)
   \<and> ml_models (snd (api_generate_image env request w)) = ml_models w
   \<and> \<not> model_loaded (health_check (lifetime_shutdown w))"
proof -
  have 1: "\<not> model_loaded (health_check initial_world)"
    by (simp add: health_check_def initial_world_def)
  have 2: "\<forall>e w'. lifetime_startup env w = (Inl e, w') \<longrightarrow> \<not> model_loaded (health_check w')"
    using startup_failed by (simp add: health_check_def)
  have 3: "\<forall>w'. lifetime_startup env w = (Inr (), w') \<longrightarrow>
         (\<forall>rs. model_loaded (health_check (serve env rs w')))"
    using startup_loaded by (simp add: health_check_def serve_ml_models)
  have 4: "model_loaded (health_check (snd (handle env r w))) = model_loaded (health_check w)"
    by (simp add: health_check_def handle_ml_models)
  have 5: "\<not> model_loaded (health_check (lifetime_shutdown w))"
    by (simp add: health_check_def lifetime_shutdown_def lifetime_cleanup_def)
  from 1 2 3 4 5 api_generate_image_ml_models show ?thesis by blast
qed

text \<open>
  An instance: a start with the stub, three requests, and the shutdown.
\<close>

theorem health_tracks_lifespan_witness:
  "lifetime_startup stub_env initial_world = (Inr (), stub_ready)
   \<and> \<not> model_loaded (health_check initial_world)
   \<and> model_loaded (health_check (serve stub_env [GetHealth, PostGenerate stub_request, GetHealth] stub_ready))
   \<and> \<not> model_loaded (health_check (lifetime_shutdown
           (serve stub_env [GetHealth, PostGenerate stub_request, GetHealth] stub_ready)))"
proof -
  let ?rs = "[GetHealth, PostGenerate stub_request, GetHealth]"
  note t = health_tracks_lifespan[of stub_env initial_world GetHealth stub_request]
  note t' = health_tracks_lifespan[of stub_env "serve stub_env ?rs stub_ready" GetHealth stub_request]
  from t have 1: "\<not> model_loaded (health_check initial_world)" by blast
  from t stub_startup have 2: "model_loaded (health_check (serve stub_env ?rs stub_ready))" by blast
  from t' have 3: "\<not> model_loaded (health_check (lifetime_shutdown (serve stub_env ?rs stub_ready)))"
    by blast
  from stub_startup 1 2 3 show ?thesis by blast
qed

section \<open>The command line of the encoder\<close>

text \<open>
  C8. Whenever a request reaches the encoder, the command it launches is exactly
  \<^verbatim>\<open>cjpeg -quality 85 -progressive -outfile tmp_jpg tmp_bmp\<close> for the two temporary
  files; when it is launched, \<open>tmp_bmp\<close> holds the BMP serialisation of the cropped image.
  If the encoder exits with a non-zero status, the request fails with status 500 carrying
  the \<^verbatim>\<open>CalledProcessError\<close>; if it exits with status 0, the request succeeds, and its
  response is the content of \<open>tmp_jpg\<close> with media type \<^verbatim>\<open>image/jpeg\<close>.
\<close>

theorem encoder_invocation:
  assumes "ml_models w ''sana_sprint'' = Some pl" and "truthy (Some pl)"
    and "generate_image env pl (ml_models w ''device'') (request_prompt request) (request_seed request) w
           = (Inr pil_image, w0)"
    and "named_temporary_file env ''.bmp'' w0 = (Inr tmp_bmp, w1)"
    and "image_save env pil_image tmp_bmp w1 = (Inr (), w2)"
    and "named_temporary_file env ''.jpg'' w2 = (Inr tmp_jpg, w3)"
  shows "subprocess_calls (snd (api_generate_image env request w)) =
           subprocess_calls w @
             [[''cjpeg'', ''-quality'', ''85'', ''-progressive'', ''-outfile'', tmp_jpg, tmp_bmp]]
    \<and> (\<exists>data. save_bmp env pil_image = Inr data \<and> fs w3 tmp_bmp = Some data)
    \<and> (\<forall>rc ws.
          execvp env [''cjpeg'', ''-quality'', ''85'', ''-progressive'', ''-outfile'', tmp_jpg, tmp_bmp]
            (fs w3) = Exited rc ws \<longrightarrow>
          (if rc \<noteq> 0
           then fst (api_generate_image env request w) =
                  Inl (HTTPException 500 (Formatted ''Image generation failed: ''
                    (CalledProcessError rc
                      [''cjpeg'', ''-quality'', ''85'', ''-progressive'', ''-outfile'', tmp_jpg, tmp_bmp])))
           else \<exists>img_data. fold (\<lambda>(p, d) m. m(p \<mapsto> d)) ws (fs w3) tmp_jpg = Some img_data
                  \<and> fst (api_generate_image env request w) =
                      Inr \<lparr>content = img_data, media_type = ''image/jpeg''\<rparr>))"
proof -
  let ?args = "[''cjpeg'', ''-quality'', ''85'', ''-progressive'', ''-outfile'', tmp_jpg, tmp_bmp]"
  let ?run = "subprocess_run env ?args True w3"
  let ?enc = "and_then ?run (\<lambda>_. read_file tmp_jpg)"
  have w0: "subprocess_calls w0 = subprocess_calls w"
    using generate_image_frame(3)[of env pl _ _ _ w] assms(3) by (metis snd_conv)
  note files = encode_files[OF assms(4-6)]
  have enc: "encode_mozjpeg env pil_image w0 = ?enc" by (rule encode_mozjpeg_run[OF assms(4-6)])
  have api: "api_generate_image env request w =
     (case ?enc of
        (Inl e, w') \<Rightarrow> (Inl (HTTPException 500 (Formatted ''Image generation failed: '' e)), w')
      | (Inr img_data, w') \<Rightarrow> (Inr \<lparr>content = img_data, media_type = ''image/jpeg''\<rparr>, w'))"
    unfolding api_generate_image_run[OF assms(1-3)] enc ..
  have "snd (api_generate_image env request w) = snd ?enc"
    unfolding api by (simp split: prod.splits sum.splits)
  then have calls: "subprocess_calls (snd (api_generate_image env request w)) = subprocess_calls w @ [?args]"
    by (simp add: and_then_read_file_snd subprocess_run_outcome(1) files(6) w0)
  have fail: "fst (api_generate_image env request w) =
      Inl (HTTPException 500 (Formatted ''Image generation failed: '' (CalledProcessError rc ?args)))"
    if "execvp env ?args (fs w3) = Exited rc ws" "rc \<noteq> 0" for rc ws
  proof -
    from subprocess_run_outcome(3)[OF that] have "fst ?run = Inl (CalledProcessError rc ?args)" .
    then have "?enc = (Inl (CalledProcessError rc ?args), snd ?run)" by (rule and_then_fst_Inl)
    then show ?thesis unfolding api by simp
  qed
  have ok: "\<exists>img_data. fold (\<lambda>(p, d) m. m(p \<mapsto> d)) ws (fs w3) tmp_jpg = Some img_data
      \<and> fst (api_generate_image env request w) = Inr \<lparr>content = img_data, media_type = ''image/jpeg''\<rparr>"
    if "execvp env ?args (fs w3) = Exited 0 ws" for ws
  proof -
    from subprocess_run_outcome(4)[OF that] have r: "fst ?run = Inr 0"
      "fs (snd ?run) = fold (\<lambda>(p, d) m. m(p \<mapsto> d)) ws (fs w3)" by auto
    from files(4) have "fs w3 tmp_jpg \<noteq> None" by simp
    from fold_writes_keeps[of "fs w3" tmp_jpg ws, OF this] obtain img_data where
      d: "fold (\<lambda>(p, d) m. m(p \<mapsto> d)) ws (fs w3) tmp_jpg = Some img_data" by blast
    from r(1) have "?enc = read_file tmp_jpg (snd ?run)" by (rule and_then_fst_Inr)
    also have "\<dots> = (Inr img_data, snd ?run)" using d r(2) by (simp add: read_file_def)
    finally have "fst (api_generate_image env request w) = Inr \<lparr>content = img_data, media_type = ''image/jpeg''\<rparr>"
      unfolding api by simp
    with d show ?thesis by blast
  qed
  from calls files(5) fail ok show ?thesis by auto
qed

text \<open>
  Two instances: the stub encoder, which exits with status 0, and the stub encoder that
  exits with status 1.
\<close>

theorem encoder_invocation_witness:
  "subprocess_calls (snd (api_generate_image stub_env stub_request stub_ready)) =
     [[''cjpeg'', ''-quality'', ''85'', ''-progressive'', ''-outfile'', ''/tmp/tmp.jpg'', ''/tmp/tmp.bmp'']]
   \<and> fst (api_generate_image stub_env stub_request stub_ready) =
       Inr \<lparr>content = [255, 216, 66, 77, 0], media_type = ''image/jpeg''\<rparr>
   \<and> subprocess_calls (snd (api_generate_image stub_env_encoder_fails stub_request stub_ready)) =
     [[''cjpeg'', ''-quality'', ''85'', ''-progressive'', ''-outfile'', ''/tmp/tmp.jpg'', ''/tmp/tmp.bmp'']]
   \<and> fst (api_generate_image stub_env_encoder_fails stub_request stub_ready) =
       Inl (HTTPException 500 (Formatted ''Image generation failed: ''
         (CalledProcessError 1
           [''cjpeg'', ''-quality'', ''85'', ''-progressive'', ''-outfile'', ''/tmp/tmp.jpg'', ''/tmp/tmp.bmp''])))"
proof -
  have e1: "stub_env = stub_env \<or> stub_env = stub_env_encoder_fails \<or> stub_env = stub_env_no_encoder"
    by simp
  have e2: "stub_env_encoder_fails = stub_env \<or> stub_env_encoder_fails = stub_env_encoder_fails
    \<or> stub_env_encoder_fails = stub_env_no_encoder" by simp
  note a = encoder_invocation[OF stub_steps[OF e1], unfolded stub_files]
  note b = encoder_invocation[OF stub_steps[OF e2], unfolded stub_files]
  from a stub_execvp(1) have "subprocess_calls (snd (api_generate_image stub_env stub_request stub_ready)) =
     [[''cjpeg'', ''-quality'', ''85'', ''-progressive'', ''-outfile'', ''/tmp/tmp.jpg'', ''/tmp/tmp.bmp'']]
   \<and> fst (api_generate_image stub_env stub_request stub_ready) =
       Inr \<lparr>content = [255, 216, 66, 77, 0], media_type = ''image/jpeg''\<rparr>"
    by simp
  moreover from b stub_execvp(2) have
   "subprocess_calls (snd (api_generate_image stub_env_encoder_fails stub_request stub_ready)) =
     [[''cjpeg'', ''-quality'', ''85'', ''-progressive'', ''-outfile'', ''/tmp/tmp.jpg'', ''/tmp/tmp.bmp'']]
   \<and> fst (api_generate_image stub_env_encoder_fails stub_request stub_ready) =
       Inl (HTTPException 500 (Formatted ''Image generation failed: ''
         (CalledProcessError 1
           [''cjpeg'', ''-quality'', ''85'', ''-progressive'', ''-outfile'', ''/tmp/tmp.jpg'', ''/tmp/tmp.bmp''])))"
    by simp
  ultimately show ?thesis by blast
qed

text \<open>
  Every request launches at most one program, and what it launches has this shape.
\<close>

theorem api_generate_image_subprocess_calls:
  "\<exists>cs. subprocess_calls (snd (api_generate_image env request w)) = subprocess_calls w @ cs
     \<and> (cs = [] \<or> (\<exists>out inp. cs =
           [[''cjpeg'', ''-quality'', ''85'', ''-progressive'', ''-outfile'', out, inp]]))"
proof -
  have *: "\<exists>cs. subprocess_calls (snd (and_then (generate_image env pl device prompt seed w)
          (encode_mozjpeg env))) = subprocess_calls w @ cs
     \<and> (cs = [] \<or> (\<exists>out inp. cs =
           [[''cjpeg'', ''-quality'', ''85'', ''-progressive'', ''-outfile'', out, inp]]))"
    for pl device prompt seed
  proof -
    obtain r w0 where g: "generate_image env pl device prompt seed w = (r, w0)"
      by (cases "generate_image env pl device prompt seed w")
    have c: "subprocess_calls w0 = subprocess_calls w"
      using generate_image_frame(3)[of env pl device prompt seed w] g by simp
    show ?thesis
    proof (cases r)
      case (Inl e)
      with g c show ?thesis by (simp add: and_then_Inl)
    next
      case (Inr im)
      with g c encode_mozjpeg_calls[of env im w0] show ?thesis by (simp add: and_then_Inr)
    qed
  qed
  show ?thesis
    unfolding api_generate_image_snd using * by (simp split: option.splits)
qed

section \<open>Inference steps\<close>

text \<open>
  C9. Every request calls the pipeline at most once, and the call has
  \<^verbatim>\<open>num_inference_steps\<close> 2 and the prompt of the request, whatever the request holds.
  When the model is loaded and the generator for the seed is made without an exception,
  the request does call the pipeline, exactly once and with 2 steps: the reply comes from
  \<^verbatim>\<open>generate_image\<close> and the encode step, and what \<^verbatim>\<open>generate_image\<close> returns is the
  centre crop of the first image of the run of the pipeline with 2 steps. A
  \<open>generation_request\<close> has the two fields of \<^verbatim>\<open>GenerationRequest\<close>, the prompt and the
  seed, and no step count.
\<close>

theorem two_inference_steps:
  "(\<exists>cs. pipeline_calls (snd (api_generate_image env request w)) = pipeline_calls w @ cs
      \<and> (cs = [] \<or> (\<exists>g. cs = [(request_prompt request, 2, g)])))
   \<and> (\<forall>p g.
         ml_models w ''sana_sprint'' = Some (PipelineObj p) \<longrightarrow>
         make_generator env (ml_models w ''device'') (request_seed request) = Inr g \<longrightarrow>
           pipeline_calls (snd (api_generate_image env request w)) =
             pipeline_calls w @ [(request_prompt request, 2, g)]
           \<and> api_generate_image env request w =
               (case and_then
                       (generate_image env (PipelineObj p) (ml_models w ''device'')
                          (request_prompt request) (request_seed request) w)
                       (encode_mozjpeg env) of
                  (Inl e, w') \<Rightarrow> (Inl (HTTPException 500 (Formatted ''Image generation failed: '' e)), w')
                | (Inr img_data, w') \<Rightarrow> (Inr \<lparr>content = img_data, media_type = ''image/jpeg''\<rparr>, w'))
           \<and> fst (generate_image env (PipelineObj p) (ml_models w ''device'')
                    (request_prompt request) (request_seed request) w) =
               raise_or (fst (pipeline_run env p (request_prompt request) 2
                                (case g of None \<Rightarrow> torch_rng w | Some (Generator st) \<Rightarrow> st)))
                 (\<lambda>images. raise_or (first_image images) center_crop))"
proof -
  have 1: "\<exists>cs. pipeline_calls (snd (api_generate_image env request w)) = pipeline_calls w @ cs
      \<and> (cs = [] \<or> (\<exists>g. cs = [(request_prompt request, 2, g)]))"
    unfolding api_generate_image_calls
    by (auto split: option.splits sum.splits ml_value.splits)
  have 2: "pipeline_calls (snd (api_generate_image env request w)) =
             pipeline_calls w @ [(request_prompt request, 2, g)]"
    if "ml_models w ''sana_sprint'' = Some (PipelineObj p)"
      "make_generator env (ml_models w ''device'') (request_seed request) = Inr g" for p g
    using that by (simp add: api_generate_image_calls truthy_def)
  have 3: "api_generate_image env request w =
               (case and_then
                       (generate_image env (PipelineObj p) (ml_models w ''device'')
                          (request_prompt request) (request_seed request) w)
                       (encode_mozjpeg env) of
                  (Inl e, w') \<Rightarrow> (Inl (HTTPException 500 (Formatted ''Image generation failed: '' e)), w')
                | (Inr img_data, w') \<Rightarrow> (Inr \<lparr>content = img_data, media_type = ''image/jpeg''\<rparr>, w'))"
    if "ml_models w ''sana_sprint'' = Some (PipelineObj p)" for p
    using that by (simp add: api_generate_image_def truthy_def)
  have 4: "fst (generate_image env (PipelineObj p) (ml_models w ''device'')
                    (request_prompt request) (request_seed request) w) =
               raise_or (fst (pipeline_run env p (request_prompt request) 2
                                (case g of None \<Rightarrow> torch_rng w | Some (Generator st) \<Rightarrow> st)))
                 (\<lambda>images. raise_or (first_image images) center_crop)"
    if "make_generator env (ml_models w ''device'') (request_seed request) = Inr g" for p g
    by (rule generate_image_fst[OF that])
  from 1 2 3 4 show ?thesis by blast
qed

text \<open>
  An instance, on the stub whose image shows the number of steps the pipeline was called
  with: one call with 2 steps, an image that shows 2, and the JPEG of that image.
\<close>

theorem two_inference_steps_witness:
  "pipeline_calls (snd (api_generate_image stub_env_shows_steps stub_request stub_ready))
     = [(''a cat'', 2, None)]
   \<and> fst (generate_image stub_env_shows_steps (PipelineObj (Pipeline ''./sana-local''))
            (ml_models stub_ready ''device'') (request_prompt stub_request) (request_seed stub_request)
            stub_ready) = Inr (stub_cropped 2)
   \<and> fst (api_generate_image stub_env_shows_steps stub_request stub_ready)
       = Inr \<lparr>content = [255, 216, 66, 77, 2], media_type = ''image/jpeg''\<rparr>"
proof -
  let ?gen = "generate_image stub_env_shows_steps (PipelineObj (Pipeline ''./sana-local''))
            (ml_models stub_ready ''device'') (request_prompt stub_request) (request_seed stub_request)
            stub_ready"
  have 1: "ml_models stub_ready ''sana_sprint'' = Some (PipelineObj (Pipeline ''./sana-local''))"
    by (simp add: stub_ready_def)
  have 2: "make_generator stub_env_shows_steps (ml_models stub_ready ''device'') (request_seed stub_request)
             = Inr None"
    by (simp add: make_generator_def stub_request_def)
  note t = two_inference_steps[of stub_env_shows_steps stub_request stub_ready]
  from t 1 2 have a: "pipeline_calls (snd (api_generate_image stub_env_shows_steps stub_request stub_ready))
     = pipeline_calls stub_ready @ [(request_prompt stub_request, 2, None)]" by blast
  from t 1 2 have b: "fst ?gen =
      raise_or (fst (pipeline_run stub_env_shows_steps (Pipeline ''./sana-local'')
                       (request_prompt stub_request) 2
                       (case None of None \<Rightarrow> torch_rng stub_ready | Some (Generator st) \<Rightarrow> st)))
        (\<lambda>images. raise_or (first_image images) center_crop)" by blast
  from t 1 2 have c: "api_generate_image stub_env_shows_steps stub_request stub_ready =
      (case and_then ?gen (encode_mozjpeg stub_env_shows_steps) of
         (Inl e, w') \<Rightarrow> (Inl (HTTPException 500 (Formatted ''Image generation failed: '' e)), w')
       | (Inr img_data, w') \<Rightarrow> (Inr \<lparr>content = img_data, media_type = ''image/jpeg''\<rparr>, w'))" by blast
  have a': "pipeline_calls (snd (api_generate_image stub_env_shows_steps stub_request stub_ready))
     = [(''a cat'', 2, None)]"
    using a by (simp add: stub_files stub_request_def)
  have b': "fst ?gen = Inr (stub_cropped 2)"
    unfolding b
    by (simp add: stub_env_shows_steps_def stub_env_def first_image_def center_crop_def raise_or_def
        stub_image_size crop_box_1024 stub_crop)
  have c': "fst (api_generate_image stub_env_shows_steps stub_request stub_ready)
       = Inr \<lparr>content = [255, 216, 66, 77, 2], media_type = ''image/jpeg''\<rparr>"
    unfolding c by (simp add: stub_eval stub_env_shows_steps_def stub_request_def)
  from a' b' c' show ?thesis by blast
qed

section \<open>Seed 0\<close>

text \<open>
  C10. For the seed 0, line 64 makes no generator, and \<^verbatim>\<open>generate_image\<close> and
  \<^verbatim>\<open>api_generate_image\<close> do exactly what they do for an absent seed, in every state and
  with any collaborators.
\<close>

theorem seed_zero_is_absent:
  "make_generator env device (Some 0) = Inr None
   \<and> generate_image env pl device prompt (Some 0) w = generate_image env pl device prompt None w
   \<and> api_generate_image env (request\<lparr>request_seed := Some 0\<rparr>) w
       = api_generate_image env (request\<lparr>request_seed := None\<rparr>) w"
proof -
  have g: "generate_image env pl device prompt (Some 0) w = generate_image env pl device prompt None w"
    for pl device prompt w
    by (simp add: generate_image_def make_generator_def)
  have "api_generate_image env (request\<lparr>request_seed := Some 0\<rparr>) w
       = api_generate_image env (request\<lparr>request_seed := None\<rparr>) w"
    by (simp add: api_generate_image_def Let_def g split: option.splits)
  with g show ?thesis by (simp add: make_generator_def)
qed

end
